theory Spec2Isabelle
  imports Complex_Main
begin

section \<open>Floating-point numbers\<close>

text \<open>
  The program computes with Python floats and NumPy \<open>float64\<close> values, which are the same
  binary64 numbers. A value is a finite number or one of \<open>inf\<close>, \<open>-inf\<close>, \<open>nan\<close>; the two
  signed zeros are one value. The arguments a caller passes (coordinates, model
  parameters, stimulus parameters) are finite numbers.
\<close>

datatype npfloat = Fin real | PInf | NInf | NaN

datatype error =
    ZeroDivisionError
  | OverflowError
  | ValueError
  | ComplexValued
    \<comment> \<open>not an exception: Python returns a complex number for a negative float raised to a
        fractional power; the model does not follow that value further\<close>

text \<open>
  The arithmetic of the machine is a parameter of the model: \<open>rnd\<close> gives the value an
  addition, subtraction, multiplication or division returns for the exact real result
  (a finite number, or an infinity on overflow), and the functions of the C library
  that NumPy and Python call are taken as they are, with \<open>lib_pi\<close> the constant \<open>np.pi\<close>.
  \<open>lib_pow x y\<close> is asked for \<open>x \<noteq> 0\<close> only, and for an integral \<open>y\<close> when \<open>x < 0\<close>.
\<close>

record fpenv =
  rnd :: "real \<Rightarrow> npfloat"
  lib_sin :: "real \<Rightarrow> real"
  lib_cos :: "real \<Rightarrow> real"
  lib_atan2 :: "real \<Rightarrow> real \<Rightarrow> real"
  lib_hypot :: "real \<Rightarrow> real \<Rightarrow> npfloat"
  lib_pow :: "real \<Rightarrow> real \<Rightarrow> npfloat"
  lib_pi :: real

fun np_neg :: "npfloat \<Rightarrow> npfloat" where
  "np_neg (Fin a) = Fin (- a)"
| "np_neg PInf = NInf"
| "np_neg NInf = PInf"
| "np_neg NaN = NaN"

fun np_add :: "fpenv \<Rightarrow> npfloat \<Rightarrow> npfloat \<Rightarrow> npfloat" where
  "np_add env (Fin a) (Fin b) = rnd env (a + b)"
| "np_add env NaN _ = NaN"
| "np_add env _ NaN = NaN"
| "np_add env PInf NInf = NaN"
| "np_add env NInf PInf = NaN"
| "np_add env PInf _ = PInf"
| "np_add env _ PInf = PInf"
| "np_add env NInf _ = NInf"
| "np_add env _ NInf = NInf"

definition np_sub :: "fpenv \<Rightarrow> npfloat \<Rightarrow> npfloat \<Rightarrow> npfloat" where
  "np_sub env a b = np_add env a (np_neg b)"

fun np_signed_inf :: "real \<Rightarrow> npfloat" where
  "np_signed_inf s = (if s = 0 then NaN else if 0 < s then PInf else NInf)"

fun np_mul :: "fpenv \<Rightarrow> npfloat \<Rightarrow> npfloat \<Rightarrow> npfloat" where
  "np_mul env (Fin a) (Fin b) = rnd env (a * b)"
| "np_mul env NaN _ = NaN"
| "np_mul env _ NaN = NaN"
| "np_mul env (Fin a) PInf = np_signed_inf a"
| "np_mul env (Fin a) NInf = np_signed_inf (- a)"
| "np_mul env PInf (Fin b) = np_signed_inf b"
| "np_mul env NInf (Fin b) = np_signed_inf (- b)"
| "np_mul env PInf PInf = PInf"
| "np_mul env NInf NInf = PInf"
| "np_mul env PInf NInf = NInf"
| "np_mul env NInf PInf = NInf"

text \<open>NumPy's division: a division by zero gives an infinity or \<open>nan\<close> and a warning.\<close>

fun np_div :: "fpenv \<Rightarrow> npfloat \<Rightarrow> npfloat \<Rightarrow> npfloat" where
  "np_div env (Fin a) (Fin b) = (if b = 0 then np_signed_inf a else rnd env (a / b))"
| "np_div env NaN _ = NaN"
| "np_div env _ NaN = NaN"
| "np_div env (Fin a) _ = Fin 0"
| "np_div env PInf (Fin b) = (if 0 \<le> b then PInf else NInf)"
| "np_div env NInf (Fin b) = (if 0 \<le> b then NInf else PInf)"
| "np_div env _ _ = NaN"

fun np_sin :: "fpenv \<Rightarrow> npfloat \<Rightarrow> npfloat" where
  "np_sin env (Fin a) = Fin (lib_sin env a)"
| "np_sin env _ = NaN"

text \<open>\<open>np.arctan2(y, x)\<close>; at an infinite argument the angle is that of the direction.\<close>

fun np_arctan2 :: "fpenv \<Rightarrow> npfloat \<Rightarrow> npfloat \<Rightarrow> npfloat" where
  "np_arctan2 env (Fin y) (Fin x) = Fin (lib_atan2 env y x)"
| "np_arctan2 env NaN _ = NaN"
| "np_arctan2 env _ NaN = NaN"
| "np_arctan2 env (Fin y) PInf = Fin 0"
| "np_arctan2 env (Fin y) NInf =
     Fin (if 0 \<le> y then lib_atan2 env 0 (- 1) else - lib_atan2 env 0 (- 1))"
| "np_arctan2 env PInf (Fin x) = Fin (lib_atan2 env 1 0)"
| "np_arctan2 env NInf (Fin x) = Fin (lib_atan2 env (- 1) 0)"
| "np_arctan2 env PInf PInf = Fin (lib_atan2 env 1 1)"
| "np_arctan2 env PInf NInf = Fin (lib_atan2 env 1 (- 1))"
| "np_arctan2 env NInf PInf = Fin (lib_atan2 env (- 1) 1)"
| "np_arctan2 env NInf NInf = Fin (lib_atan2 env (- 1) (- 1))"

fun np_hypot :: "fpenv \<Rightarrow> npfloat \<Rightarrow> npfloat \<Rightarrow> npfloat" where
  "np_hypot env (Fin a) (Fin b) = lib_hypot env a b"
| "np_hypot env PInf _ = PInf"
| "np_hypot env NInf _ = PInf"
| "np_hypot env _ PInf = PInf"
| "np_hypot env _ NInf = PInf"
| "np_hypot env _ _ = NaN"

fun np_lt0 :: "npfloat \<Rightarrow> bool" where
  "np_lt0 (Fin a) = (a < 0)"
| "np_lt0 NInf = True"
| "np_lt0 _ = False"

fun np_ge0 :: "npfloat \<Rightarrow> bool" where
  "np_ge0 (Fin a) = (0 \<le> a)"
| "np_ge0 PInf = True"
| "np_ge0 _ = False"

definition is_integral :: "real \<Rightarrow> bool" where
  "is_integral y = (of_int \<lfloor>y\<rfloor> = y)"

text \<open>
  \<open>v ** y\<close> for a Python float \<open>v\<close> and a finite \<open>y\<close>, with the cases of CPython in their
  order; the C library returns \<open>x\<close> for the exponent 1, and an overflow of its result
  raises \<open>OverflowError\<close>.
\<close>

fun py_pow :: "fpenv \<Rightarrow> npfloat \<Rightarrow> real \<Rightarrow> error + npfloat" where
  "py_pow env (Fin x) y =
     (if y = 0 then Inr (Fin 1)
      else if x = 0 then (if y < 0 then Inl ZeroDivisionError else Inr (Fin 0))
      else if x < 0 \<and> \<not> is_integral y then Inl ComplexValued
      else if x = 1 \<or> y = 1 then Inr (Fin x)
      else (case lib_pow env x y of Fin r \<Rightarrow> Inr (Fin r) | _ \<Rightarrow> Inl OverflowError))"
| "py_pow env NaN y = Inr (if y = 0 then Fin 1 else NaN)"
| "py_pow env PInf y = Inr (if y = 0 then Fin 1 else if y < 0 then Fin 0 else PInf)"
| "py_pow env NInf y =
     Inr (if y = 0 then Fin 1 else if y < 0 then Fin 0
          else if is_integral y \<and> odd \<lfloor>y\<rfloor> then NInf else PInf)"

text \<open>\<open>v ** y\<close> for a NumPy value \<open>v\<close> and a finite \<open>y\<close>: never raises.\<close>

fun np_pow :: "fpenv \<Rightarrow> npfloat \<Rightarrow> real \<Rightarrow> npfloat" where
  "np_pow env (Fin x) y =
     (if y = 0 then Fin 1
      else if x = 0 then (if y < 0 then PInf else Fin 0)
      else if x < 0 \<and> \<not> is_integral y then NaN
      else if x = 1 \<or> y = 1 then Fin x
      else lib_pow env x y)"
| "np_pow env NaN y = (if y = 0 then Fin 1 else NaN)"
| "np_pow env PInf y = (if y = 0 then Fin 1 else if y < 0 then Fin 0 else PInf)"
| "np_pow env NInf y =
     (if y = 0 then Fin 1 else if y < 0 then Fin 0
      else if is_integral y \<and> odd \<lfloor>y\<rfloor> then NInf else PInf)"

text \<open>
  A number at run time is a Python float or a NumPy value. The two differ in a division
  by zero and in a power; an operation has NumPy's behaviour as soon as one operand is
  a NumPy value.
\<close>

datatype pynum = PyFloat npfloat | NpFloat npfloat

fun to_np :: "pynum \<Rightarrow> npfloat" where
  "to_np (PyFloat v) = v"
| "to_np (NpFloat v) = v"

fun num_add :: "fpenv \<Rightarrow> pynum \<Rightarrow> pynum \<Rightarrow> pynum" where
  "num_add env (PyFloat a) (PyFloat b) = PyFloat (np_add env a b)"
| "num_add env a b = NpFloat (np_add env (to_np a) (to_np b))"

fun num_mul :: "fpenv \<Rightarrow> pynum \<Rightarrow> pynum \<Rightarrow> pynum" where
  "num_mul env (PyFloat a) (PyFloat b) = PyFloat (np_mul env a b)"
| "num_mul env a b = NpFloat (np_mul env (to_np a) (to_np b))"

fun num_div :: "fpenv \<Rightarrow> pynum \<Rightarrow> pynum \<Rightarrow> error + pynum" where
  "num_div env (PyFloat a) (PyFloat b) =
     (if b = Fin 0 then Inl ZeroDivisionError else Inr (PyFloat (np_div env a b)))"
| "num_div env a b = Inr (NpFloat (np_div env (to_np a) (to_np b)))"

fun num_pow :: "fpenv \<Rightarrow> pynum \<Rightarrow> real \<Rightarrow> error + pynum" where
  "num_pow env (PyFloat v) y =
     (case py_pow env v y of Inl e \<Rightarrow> Inl e | Inr r \<Rightarrow> Inr (PyFloat r))"
| "num_pow env (NpFloat v) y = Inr (NpFloat (np_pow env v y))"

text \<open>A NumPy complex value: its real and its imaginary part.\<close>

type_synonym npcomplex = "npfloat \<times> npfloat"

text \<open>
  \<open>np.exp(d * 1j)\<close> for a NumPy float \<open>d\<close>: \<open>cos d + i sin d\<close> for a finite \<open>d\<close>; for an
  infinite \<open>d\<close> the product \<open>d * 1j\<close> has the real part \<open>inf * 0 = nan\<close> and the
  exponential has both parts \<open>nan\<close>.
\<close>

fun np_expi :: "fpenv \<Rightarrow> npfloat \<Rightarrow> npcomplex" where
  "np_expi env (Fin a) = (Fin (lib_cos env a), Fin (lib_sin env a))"
| "np_expi env _ = (NaN, NaN)"

text \<open>\<open>c * z\<close> for a Python float \<open>c\<close>: the complex product of \<open>c + 0j\<close> and \<open>z\<close>.\<close>

fun np_cscale :: "fpenv \<Rightarrow> real \<Rightarrow> npcomplex \<Rightarrow> npcomplex" where
  "np_cscale env c (re, im) =
     (np_sub env (np_mul env (Fin c) re) (np_mul env (Fin 0) im),
      np_add env (np_mul env (Fin c) im) (np_mul env (Fin 0) re))"

fun np_cadd :: "fpenv \<Rightarrow> npcomplex \<Rightarrow> npcomplex \<Rightarrow> npcomplex" where
  "np_cadd env (a, b) (c, d) = (np_add env a c, np_add env b d)"

fun np_angle :: "fpenv \<Rightarrow> npcomplex \<Rightarrow> npfloat" where
  "np_angle env (re, im) = np_arctan2 env im re"

fun np_abs :: "fpenv \<Rightarrow> npcomplex \<Rightarrow> npfloat" where
  "np_abs env (re, im) = np_hypot env re im"

text \<open>A value handed to a nonlinearity: a NumPy scalar or a one-dimensional array.\<close>

datatype 'a pyval = Scalar 'a | Array "'a list"

section \<open>Two arithmetics\<close>

text \<open>
  The mathematical functions: the angle of the point \<open>(x, y)\<close> in \<open>(-pi, pi]\<close>, and the
  power of a non-zero real.
\<close>

definition arctan2 :: "real \<Rightarrow> real \<Rightarrow> real" where
  "arctan2 y x =
     (if 0 < x then arctan (y / x)
      else if x < 0 then (if 0 \<le> y then arctan (y / x) + pi else arctan (y / x) - pi)
      else if 0 < y then pi / 2
      else if y < 0 then - (pi / 2)
      else 0)"

definition real_pow :: "real \<Rightarrow> real \<Rightarrow> real" where
  "real_pow x y = (if is_integral y then power_int x \<lfloor>y\<rfloor> else x powr y)"

text \<open>Exact real arithmetic: nothing is rounded and nothing overflows.\<close>

definition exact_arith :: fpenv where
  "exact_arith =
     \<lparr>rnd = Fin, lib_sin = sin, lib_cos = cos, lib_atan2 = arctan2,
      lib_hypot = (\<lambda>x y. Fin (sqrt (x\<^sup>2 + y\<^sup>2))),
      lib_pow = (\<lambda>x y. Fin (real_pow x y)),
      lib_pi = pi\<rparr>"

text \<open>
  Binary64 arithmetic: a result is rounded to the nearest number with a significand of
  53 bits and an exponent of at least \<open>-1074\<close> for its last bit, a tie goes to the even
  significand, and a rounded magnitude of \<open>2 ^ 1024\<close> or more is an infinity.
\<close>

definition round_even :: "real \<Rightarrow> int" where
  "round_even q =
     (let f = \<lfloor>q\<rfloor>; r = q - of_int f
      in if r < 1 / 2 then f else if 1 / 2 < r then f + 1 else if even f then f else f + 1)"

definition scale64 :: "real \<Rightarrow> int" where
  "scale64 x = max (\<lfloor>log 2 \<bar>x\<bar>\<rfloor> - 52) (- 1074)"

definition rnd64 :: "real \<Rightarrow> npfloat" where
  "rnd64 x =
     (if x = 0 then Fin 0
      else
        let e = scale64 x;
            y = of_int (round_even (x / 2 powi e)) * 2 powi e
        in if 2 powi 1024 \<le> \<bar>y\<bar> then (if 0 < x then PInf else NInf) else Fin y)"

fun fin_of :: "npfloat \<Rightarrow> real" where
  "fin_of (Fin a) = a"
| "fin_of _ = 0"

text \<open>
  The functions of the C library are taken as correctly rounded here. No theorem below
  rests on a value of theirs other than at 0 or at a power of two, where every library
  returns the exact result: what is proved of this arithmetic at other arguments is
  proved of every arithmetic.
\<close>

definition binary64_arith :: fpenv where
  "binary64_arith =
     \<lparr>rnd = rnd64,
      lib_sin = (\<lambda>x. fin_of (rnd64 (sin x))),
      lib_cos = (\<lambda>x. fin_of (rnd64 (cos x))),
      lib_atan2 = (\<lambda>y x. fin_of (rnd64 (arctan2 y x))),
      lib_hypot = (\<lambda>x y. rnd64 (sqrt (x\<^sup>2 + y\<^sup>2))),
      lib_pow = (\<lambda>x y. rnd64 (real_pow x y)),
      lib_pi = 884279719003555 / 281474976710656\<rparr>"

text \<open>What the theorems ask of an arithmetic, where they ask anything.\<close>

definition rounds_zero :: "fpenv \<Rightarrow> bool" where
  "rounds_zero env = (rnd env 0 = Fin 0)"

definition rounds_sign :: "fpenv \<Rightarrow> bool" where
  "rounds_sign env = (\<forall>x. np_ge0 (rnd env \<bar>x\<bar>))"

definition representable :: "fpenv \<Rightarrow> real \<Rightarrow> bool" where
  "representable env x = (rnd env x = Fin x)"

section \<open>nonlinearity.py\<close>

definition relu :: "npfloat pyval \<Rightarrow> npfloat pyval" where
  "relu x =
     (case x of
        Array y \<Rightarrow> Array (map (\<lambda>v. if np_lt0 v then Fin 0 else v) y)
      | Scalar v \<Rightarrow> Scalar (if np_lt0 v then Fin 0 else v))"

section \<open>point\_model.py: LGNnode\<close>

record LGNnode =
  center :: "real \<times> real"
  nonlinear :: "npfloat pyval \<Rightarrow> npfloat pyval"
  Rmax :: real
  C50 :: real
  Rbase :: real

text \<open>The constructor \<open>LGNnode.__init__\<close>; its defaults are \<open>(0, 0)\<close>, \<open>relu\<close>, 11.3, 0.5, 0.\<close>

definition LGNnode_init ::
  "real \<times> real \<Rightarrow> (npfloat pyval \<Rightarrow> npfloat pyval) \<Rightarrow> real \<Rightarrow> real \<Rightarrow> real \<Rightarrow> LGNnode" where
  "LGNnode_init center' nl Rmax' C50' Rbase' =
     \<lparr>center = center', nonlinear = nl, Rmax = Rmax', C50 = C50', Rbase = Rbase'\<rparr>"

definition LGNnode_get_contrast_response ::
  "fpenv \<Rightarrow> LGNnode \<Rightarrow> pynum \<Rightarrow> real \<Rightarrow> error + pynum" where
  "LGNnode_get_contrast_response env self contrast order' =
     (case num_pow env contrast order' of Inl e \<Rightarrow> Inl e | Inr p \<Rightarrow>
       (case num_pow env (PyFloat (Fin (C50 self))) order' of Inl e \<Rightarrow> Inl e | Inr q \<Rightarrow>
         (case num_div env (num_mul env (PyFloat (Fin (Rmax self))) p) (num_add env p q) of
            Inl e \<Rightarrow> Inl e
          | Inr r \<Rightarrow> Inr (num_add env r (PyFloat (Fin (Rbase self)))))))"

text \<open>
  The expression \<open>np.array([[np.cos(ori), np.sin(ori)]]) @ self.center / sf * 2 * np.pi\<close>,
  read at \<open>[0][0]\<close>, which the source writes out three times. The matrix product is the
  sum of two rounded products.
\<close>

definition dist_phi :: "fpenv \<Rightarrow> LGNnode \<Rightarrow> real \<Rightarrow> real \<Rightarrow> npfloat" where
  "dist_phi env self ori sf =
     np_mul env
       (np_mul env
          (np_div env
             (np_add env (np_mul env (Fin (lib_cos env ori)) (Fin (fst (center self))))
                         (np_mul env (Fin (lib_sin env ori)) (Fin (snd (center self)))))
             (Fin sf))
          (Fin 2))
       (Fin (lib_pi env))"

text \<open>
  The methods take their stimulus parameters by keyword, with the defaults \<open>ori = 0\<close>,
  \<open>contrast = 0.48\<close>, \<open>phase = 0\<close>, \<open>sf = 50\<close> (for a plaid \<open>ori1 = ori2 = 0\<close>,
  \<open>contrast1 = contrast2 = 0.48\<close>, \<open>dphase = 0\<close>); the model takes every one of them as an
  argument. The phase is a number or an array of numbers.
\<close>

definition LGNnode_get_sinusoidal ::
  "fpenv \<Rightarrow> LGNnode \<Rightarrow> real \<Rightarrow> real \<Rightarrow> npfloat pyval \<Rightarrow> real \<Rightarrow> npfloat pyval \<times> pynum" where
  "LGNnode_get_sinusoidal env self ori contrast phase sf =
     (let dist = dist_phi env self ori sf;
          luminance = map_pyval (\<lambda>p. np_sin env (np_add env dist p)) phase
      in (map_pyval (\<lambda>l. np_mul env l (Fin 2)) luminance, PyFloat (Fin contrast)))"

definition LGNnode_get_sinusoidal_plaid ::
  "fpenv \<Rightarrow> LGNnode \<Rightarrow> real \<Rightarrow> real \<Rightarrow> real \<Rightarrow> real \<Rightarrow> npfloat pyval \<Rightarrow> real \<Rightarrow> real
     \<Rightarrow> npfloat pyval \<times> pynum" where
  "LGNnode_get_sinusoidal_plaid env self ori1 ori2 contrast1 contrast2 phase dphase sf =
     (let dist1 = dist_phi env self ori1 sf;
          dist2 = np_add env (dist_phi env self ori2 sf) (Fin dphase);
          vec = np_cadd env (np_cscale env contrast1 (np_expi env dist1))
                            (np_cscale env contrast2 (np_expi env dist2));
          luminance = map_pyval (\<lambda>p. np_sin env (np_add env (np_angle env vec) p)) phase
      in (map_pyval (\<lambda>l. np_mul env l (Fin 2)) luminance, NpFloat (np_abs env vec)))"

definition LGNnode_get_response_grating ::
  "fpenv \<Rightarrow> LGNnode \<Rightarrow> real \<Rightarrow> real \<Rightarrow> npfloat pyval \<Rightarrow> real \<Rightarrow> error + npfloat pyval" where
  "LGNnode_get_response_grating env self ori contrast phase sf =
     (case LGNnode_get_sinusoidal env self ori contrast phase sf of (l, c) \<Rightarrow>
       (case LGNnode_get_contrast_response env self c 1 of
          Inl e \<Rightarrow> Inl e
        | Inr r \<Rightarrow> Inr (nonlinear self (map_pyval (np_mul env (to_np r)) l))))"

definition LGNnode_get_response_plaid ::
  "fpenv \<Rightarrow> LGNnode \<Rightarrow> real \<Rightarrow> real \<Rightarrow> real \<Rightarrow> real \<Rightarrow> npfloat pyval \<Rightarrow> real \<Rightarrow> real
     \<Rightarrow> error + npfloat pyval" where
  "LGNnode_get_response_plaid env self ori1 ori2 contrast1 contrast2 phase dphase sf =
     (case LGNnode_get_sinusoidal_plaid env self ori1 ori2 contrast1 contrast2 phase dphase sf
      of (l, c) \<Rightarrow>
       (case LGNnode_get_contrast_response env self c 1 of
          Inl e \<Rightarrow> Inl e
        | Inr r \<Rightarrow> Inr (nonlinear self (map_pyval (np_mul env (to_np r)) l))))"

section \<open>point\_model.py: V1node\<close>

record V1node =
  subunits :: "LGNnode list"
  nonlinear_V1 :: "npfloat pyval \<Rightarrow> npfloat pyval"

definition V1node_init :: "LGNnode list \<Rightarrow> (npfloat pyval \<Rightarrow> npfloat pyval) \<Rightarrow> V1node" where
  "V1node_init subunits' nl = \<lparr>subunits = subunits', nonlinear_V1 = nl\<rparr>"

text \<open>
  \<open>np.linspace(start, stop, num)\<close> for \<open>num \<ge> 1\<close>: the samples \<open>i * step + start\<close> with
  \<open>step = (stop - start) / (num - 1)\<close> (\<open>i / (num - 1) * (stop - start) + start\<close> when the
  step is 0), the last of them replaced by \<open>stop\<close>; for \<open>num = 1\<close> the one sample
  \<open>0 * (stop - start) + start\<close>.
\<close>

definition linspace :: "fpenv \<Rightarrow> npfloat \<Rightarrow> npfloat \<Rightarrow> nat \<Rightarrow> npfloat list" where
  "linspace env start stop num =
     (let delta = np_sub env stop start in
      if num = 1 then [np_add env (np_mul env (Fin 0) delta) start]
      else
        let denom = Fin (real (num - 1)); step = np_div env delta denom
        in map (\<lambda>i. if i = num - 1 then stop
                    else np_add env
                           (if step = Fin 0 then np_mul env (np_div env (Fin (real i)) denom) delta
                            else np_mul env (Fin (real i)) step)
                           start)
               [0..<num])"

text \<open>
  \<open>_resp += r\<close>: in-place addition into the one-dimensional array \<open>_resp\<close>. A scalar and an
  array of one element are broadcast, an array of the same length is added entry by
  entry, any other array raises \<open>ValueError\<close>.
\<close>

definition np_iadd :: "fpenv \<Rightarrow> npfloat list \<Rightarrow> npfloat pyval \<Rightarrow> error + npfloat list" where
  "np_iadd env resp r =
     (case r of
        Scalar v \<Rightarrow> Inr (map (\<lambda>a. np_add env a v) resp)
      | Array ys \<Rightarrow>
          if length ys = length resp then Inr (map (\<lambda>(a, b). np_add env a b) (zip resp ys))
          else if length ys = 1 then Inr (map (\<lambda>a. np_add env a (hd ys)) resp)
          else Inl ValueError)"

text \<open>The loop \<open>for item in self.subunits: _resp += f(item)\<close>.\<close>

fun pool :: "fpenv \<Rightarrow> (LGNnode \<Rightarrow> error + npfloat pyval) \<Rightarrow> LGNnode list \<Rightarrow> npfloat list
               \<Rightarrow> error + npfloat list" where
  "pool env f [] resp = Inr resp"
| "pool env f (item # rest) resp =
     (case f item of Inl e \<Rightarrow> Inl e | Inr r \<Rightarrow>
       (case np_iadd env resp r of Inl e \<Rightarrow> Inl e | Inr resp' \<Rightarrow> pool env f rest resp'))"

text \<open>
  The body shared by the two methods of \<open>V1node\<close>, which differ in the method of the
  subunit they call. \<open>np.zeros(length)\<close> raises \<open>ValueError\<close> for a negative length and
  \<open>1/length\<close> raises \<open>ZeroDivisionError\<close> for length 0.
\<close>

definition cycle_response ::
  "fpenv \<Rightarrow> V1node \<Rightarrow> int \<Rightarrow> real \<Rightarrow> (LGNnode \<Rightarrow> npfloat pyval \<Rightarrow> error + npfloat pyval)
     \<Rightarrow> error + npfloat list" where
  "cycle_response env self len phase f =
     (if len < 0 then Inl ValueError
      else if len = 0 then Inl ZeroDivisionError
      else
        let resp = replicate (nat len) (Fin 0);
            stop = np_mul env (np_mul env (Fin 2) (Fin (lib_pi env)))
                     (np_sub env (Fin 1) (np_div env (Fin 1) (Fin (real_of_int len))));
            step = linspace env (Fin 0) stop (nat len)
        in case pool env (\<lambda>item. f item (Array (map (\<lambda>s. np_add env s (Fin phase)) step)))
                  (subunits self) resp
           of Inl e \<Rightarrow> Inl e
            | Inr resp' \<Rightarrow>
                Inr (map (\<lambda>a. np_div env a (Fin (real (length (subunits self))))) resp'))"

definition V1node_get_response_grating ::
  "fpenv \<Rightarrow> V1node \<Rightarrow> int \<Rightarrow> real \<Rightarrow> real \<Rightarrow> real \<Rightarrow> real \<Rightarrow> error + npfloat list" where
  "V1node_get_response_grating env self len phase ori contrast sf =
     cycle_response env self len phase
       (\<lambda>item ph. LGNnode_get_response_grating env item ori contrast ph sf)"

definition V1node_get_response_plaid ::
  "fpenv \<Rightarrow> V1node \<Rightarrow> int \<Rightarrow> real \<Rightarrow> real \<Rightarrow> real \<Rightarrow> real \<Rightarrow> real \<Rightarrow> real \<Rightarrow> real
     \<Rightarrow> error + npfloat list" where
  "V1node_get_response_plaid env self len phase ori1 ori2 contrast1 contrast2 dphase sf =
     cycle_response env self len phase
       (\<lambda>item ph. LGNnode_get_response_plaid env item ori1 ori2 contrast1 contrast2 ph dphase sf)"

section \<open>The formulas of the specification\<close>

text \<open>
  The quantities the specification names, written as it states them, over the reals.
  The theorems below relate the program to them.
\<close>

text \<open>The spatial phase offset of a grating at the centre of a subunit.\<close>

definition spec_phase_offset :: "LGNnode \<Rightarrow> real \<Rightarrow> real \<Rightarrow> real" where
  "spec_phase_offset self ori sf =
     (fst (center self) * cos ori + snd (center self) * sin ori) / sf * (2 * pi)"

text \<open>The contrast-response transform of order 1.\<close>

definition spec_CR :: "LGNnode \<Rightarrow> real \<Rightarrow> real" where
  "spec_CR self c = Rmax self * c / (c + C50 self) + Rbase self"

text \<open>The sum of the two complex vectors of a plaid; \<open>dphase\<close> enters the second only.\<close>

definition spec_plaid_vector ::
  "LGNnode \<Rightarrow> real \<Rightarrow> real \<Rightarrow> real \<Rightarrow> real \<Rightarrow> real \<Rightarrow> real \<Rightarrow> complex" where
  "spec_plaid_vector self ori1 ori2 contrast1 contrast2 dphase sf =
     of_real contrast1 * exp (\<i> * of_real (spec_phase_offset self ori1 sf))
   + of_real contrast2 * exp (\<i> * of_real (spec_phase_offset self ori2 sf + dphase))"

text \<open>
  The scalar branch of \<open>relu\<close>; "every returned value is at least 0"; "no returned value
  is negative" (each is at least 0 or \<open>nan\<close>).
\<close>

definition relu_scalar :: "npfloat \<Rightarrow> npfloat" where
  "relu_scalar v = (if np_lt0 v then Fin 0 else v)"

fun all_ge0 :: "npfloat pyval \<Rightarrow> bool" where
  "all_ge0 (Scalar v) = np_ge0 v"
| "all_ge0 (Array ys) = list_all np_ge0 ys"

definition not_neg :: "npfloat \<Rightarrow> bool" where
  "not_neg v = (np_ge0 v \<or> v = NaN)"

fun none_neg :: "npfloat pyval \<Rightarrow> bool" where
  "none_neg (Scalar v) = not_neg v"
| "none_neg (Array ys) = list_all not_neg ys"

text \<open>
  The value \<open>zero_or_nan l\<close> is the product \<open>0 * l\<close>: 0 for a finite \<open>l\<close> and \<open>nan\<close>
  for an infinity or \<open>nan\<close>.
\<close>

fun zero_or_nan :: "npfloat \<Rightarrow> npfloat" where
  "zero_or_nan (Fin a) = Fin 0"
| "zero_or_nan _ = NaN"

section \<open>Particular inputs\<close>

text \<open>
  The binary64 numbers that the examples below use: the one nearest to 11.3 (the default
  \<open>Rmax\<close>), the two adjacent numbers \<open>0.8599465287952899\<close> and \<open>0.85994652879529\<close>
  (\<open>0x1.b84ae952f80f6p-1\<close> and \<open>0x1.b84ae952f80f7p-1\<close>), and \<open>1e-308\<close>; and the subunit
  \<open>LGNnode()\<close> with all its defaults.
\<close>

definition default_Rmax :: real where
  "default_Rmax = 3180667236830413 / 281474976710656"

definition contrast_lo :: real where
  "contrast_lo = 3872854866641019 / 4503599627370496"

definition contrast_hi :: real where
  "contrast_hi = 7745709733282039 / 9007199254740992"


definition LGNnode_default :: LGNnode where
  "LGNnode_default = LGNnode_init (0, 0) relu default_Rmax (1 / 2) 0"

section \<open>Rounding to binary64\<close>

lemma floor_log2:
  fixes x :: real
  assumes "2 powi k \<le> x" "x < 2 powi (k + 1)"
  shows "\<lfloor>log 2 x\<rfloor> = k"
proof -
  have pos: "0 < x"
    using assms(1) zero_less_power_int [of "2::real" k] by linarith
  have a: "(2::real) powr (of_int k) = 2 powi k"
    by (simp add: powr_real_of_int')
  have b: "(2::real) powr (of_int (k + 1)) = 2 powi (k + 1)"
    using powr_real_of_int' [of 2 "k + 1"] by simp
  have "of_int k \<le> log 2 x"
    using assms(1) pos a by (simp add: le_log_iff)
  moreover have "log 2 x < of_int (k + 1)"
    using assms(2) pos b by (simp add: log_less_iff)
  ultimately show ?thesis
    by (simp add: floor_eq_iff)
qed

lemma scale64_eval:
  assumes "2 powi k \<le> \<bar>x\<bar>" "\<bar>x\<bar> < 2 powi (k + 1)"
  shows "scale64 x = max (k - 52) (- 1074)"
  using floor_log2 [OF assms] by (simp add: scale64_def)

lemma round_even_near:
  assumes "\<bar>q - of_int m\<bar> < 1 / 2"
  shows "round_even q = m"
proof (cases "of_int m \<le> q")
  case True
  then have f: "\<lfloor>q\<rfloor> = m" using assms by (simp add: floor_eq_iff abs_less_iff)
  show ?thesis using assms True by (simp add: round_even_def f Let_def)
next
  case False
  then have f: "\<lfloor>q\<rfloor> = m - 1" using assms by (simp add: floor_eq_iff abs_less_iff)
  show ?thesis using assms False by (simp add: round_even_def f Let_def)
qed

lemma round_even_tie_odd:
  assumes "q = of_int f + 1 / 2" "odd f"
  shows "round_even q = f + 1"
proof -
  have "\<lfloor>q\<rfloor> = f" using assms(1) by (simp add: floor_eq_iff)
  then show ?thesis using assms by (simp add: round_even_def Let_def)
qed

lemma round_even_tie_even:
  assumes "q = of_int f + 1 / 2" "even f"
  shows "round_even q = f"
proof -
  have "\<lfloor>q\<rfloor> = f" using assms(1) by (simp add: floor_eq_iff)
  then show ?thesis using assms by (simp add: round_even_def Let_def)
qed

text \<open>
  The rounding of a given real, from the exponent \<open>k\<close> of its leading bit and the integer
  its scaled value rounds to.
\<close>

lemma rnd64_rounded:
  assumes "2 powi k \<le> \<bar>x\<bar>" "\<bar>x\<bar> < 2 powi (k + 1)"
    and "e = max (k - 52) (- 1074)"
    and "round_even (x / 2 powi e) = m"
    and "\<bar>of_int m * 2 powi e\<bar> < (2::real) powi 1024"
  shows "rnd64 x = Fin (of_int m * 2 powi e)"
proof -
  have "0 < \<bar>x\<bar>"
    using assms(1) zero_less_power_int [of "2::real" k] by linarith
  then have "x \<noteq> 0" by simp
  moreover have "scale64 x = e"
    using scale64_eval [OF assms(1,2)] assms(3) by simp
  ultimately show ?thesis
    using assms(4,5) by (simp add: rnd64_def Let_def)
qed

lemma rnd64_eval:
  assumes "2 powi k \<le> \<bar>x\<bar>" "\<bar>x\<bar> < 2 powi (k + 1)"
    and "e = max (k - 52) (- 1074)"
    and "\<bar>x / 2 powi e - of_int m\<bar> < 1 / 2"
    and "\<bar>of_int m * 2 powi e\<bar> < (2::real) powi 1024"
  shows "rnd64 x = Fin (of_int m * 2 powi e)"
  using assms(1,2,3) round_even_near [OF assms(4)] assms(5) by (rule rnd64_rounded)


text \<open>
  Rounding returns every binary64 number as it is: a number \<open>m * 2 ^ e\<close> with
  \<open>|m| < 2 ^ 53\<close>, \<open>e \<ge> -1074\<close> and a magnitude below \<open>2 ^ 1024\<close>.
\<close>

lemma rnd64_fixes_binary64:
  assumes x: "x = of_int m * 2 powi e" and m: "\<bar>m\<bar> < 2 ^ 53" and e: "- 1074 \<le> e"
    and fin: "\<bar>x\<bar> < 2 powi 1024"
  shows "rnd64 x = Fin x"
proof (cases "x = 0")
  case True
  then show ?thesis by (simp add: rnd64_def)
next
  case False
  define s where "s = scale64 x"
  have xpos: "0 < \<bar>x\<bar>" using False by simp
  have "\<bar>x\<bar> = of_int \<bar>m\<bar> * 2 powi e"
    by (simp add: x abs_mult)
  also have "\<dots> < 2 ^ 53 * 2 powi e"
  proof -
    have "real_of_int \<bar>m\<bar> < 2 ^ 53" using m by (metis of_int_less_numeral_power_cancel_iff)
    then show ?thesis by (simp add: zero_less_power_int)
  qed
  also have "\<dots> = 2 powi (53 + e)"
    by (simp add: power_int_add)
  finally have up: "\<bar>x\<bar> < 2 powi (53 + e)" .
  have "log 2 \<bar>x\<bar> < of_int (53 + e)"
    using up xpos powr_real_of_int' [of 2 "53 + e"] by (simp add: log_less_iff)
  then have "\<lfloor>log 2 \<bar>x\<bar>\<rfloor> < 53 + e"
    by (simp add: floor_less_iff)
  then have se: "s \<le> e"
    using e by (simp add: s_def scale64_def)
  define n where "n = m * 2 ^ nat (e - s)"
  have pw: "(2::real) powi (e - s) = 2 ^ nat (e - s)"
    using se by (simp add: power_int_def)
  have "x / 2 powi s = of_int m * 2 powi (e - s)"
    by (simp add: x power_int_diff)
  then have q: "x / 2 powi s = of_int n"
    by (simp add: n_def pw)
  have r: "round_even (x / 2 powi s) = n"
    by (rule round_even_near) (simp add: q)
  have "of_int n * 2 powi s = x"
    using q by (simp add: field_simps)
  then show ?thesis
    using False fin r by (simp add: rnd64_def Let_def s_def [symmetric])
qed

lemma rnd64_0: "rnd64 0 = Fin 0"
  by (simp add: rnd64_def)

lemma rnd64_1: "rnd64 1 = Fin 1"
  using rnd64_eval [of 0 1 "-52" "4503599627370496"] by (simp add: power_int_minus)

lemma rnd64_half: "rnd64 (1/2) = Fin (1/2)"
  using rnd64_eval [of "-1" "1/2" "-53" "4503599627370496"] by (simp add: power_int_minus)

lemma rnd64_2: "rnd64 2 = Fin 2"
  using rnd64_eval [of 1 2 "-51" "4503599627370496"] by (simp add: power_int_minus)

lemma rnd64_3: "rnd64 3 = Fin 3"
  using rnd64_eval [of 1 3 "-51" "6755399441055744"] by (simp add: power_int_minus)

lemma rnd64_3_halves: "rnd64 (3/2) = Fin (3/2)"
  using rnd64_eval [of 0 "3/2" "-52" "6755399441055744"] by (simp add: power_int_minus)

lemma round_even_nonneg: "0 \<le> q \<Longrightarrow> 0 \<le> round_even q"
  by (auto simp add: round_even_def Let_def)

lemma rnd64_sign: "np_ge0 (rnd64 \<bar>x\<bar>)"
proof (cases "x = 0")
  case True
  then show ?thesis by (simp add: rnd64_def)
next
  case False
  have "0 \<le> \<bar>x\<bar> / 2 powi scale64 \<bar>x\<bar>"
    by (simp add: zero_le_power_int)
  then have "0 \<le> round_even (\<bar>x\<bar> / 2 powi scale64 \<bar>x\<bar>)"
    by (rule round_even_nonneg)
  then have "0 \<le> real_of_int (round_even (\<bar>x\<bar> / 2 powi scale64 \<bar>x\<bar>)) * 2 powi scale64 \<bar>x\<bar>"
    by (simp add: zero_le_power_int)
  then show ?thesis using False
    by (simp add: rnd64_def Let_def)
qed

section \<open>Properties of the two arithmetics\<close>

lemma exact_fields [simp]:
  "rnd exact_arith x = Fin x"
  "lib_sin exact_arith = sin"
  "lib_cos exact_arith = cos"
  "lib_atan2 exact_arith = arctan2"
  "lib_hypot exact_arith a b = Fin (sqrt (a\<^sup>2 + b\<^sup>2))"
  "lib_pow exact_arith a b = Fin (real_pow a b)"
  "lib_pi exact_arith = pi"
  by (simp_all add: exact_arith_def)

lemma binary64_fields:
  "rnd binary64_arith = rnd64"
  "lib_sin binary64_arith x = fin_of (rnd64 (sin x))"
  "lib_cos binary64_arith x = fin_of (rnd64 (cos x))"
  "lib_pow binary64_arith a b = rnd64 (real_pow a b)"
  "lib_pi binary64_arith = 884279719003555 / 281474976710656"
  by (simp_all add: binary64_arith_def)

lemma exact_rounds: "rounds_zero exact_arith" "rounds_sign exact_arith" "representable exact_arith x"
  by (simp_all add: rounds_zero_def rounds_sign_def representable_def)

lemma binary64_rounds: "rounds_zero binary64_arith" "rounds_sign binary64_arith"
  by (simp_all add: rounds_zero_def rounds_sign_def binary64_fields rnd64_0 rnd64_sign)

lemma binary64_numbers_representable:
  assumes "x = of_int m * 2 powi e" "\<bar>m\<bar> < 2 ^ 53" "- 1074 \<le> e" "\<bar>x\<bar> < 2 powi 1024"
  shows "representable binary64_arith x"
  using rnd64_fixes_binary64 [OF assms] by (simp add: representable_def binary64_fields)

lemma binary64_representable:
  "representable binary64_arith 0" "representable binary64_arith 1"
  "representable binary64_arith (1/2)" "representable binary64_arith 2"
  "representable binary64_arith 3" "representable binary64_arith (3/2)"
  by (simp_all add: representable_def binary64_fields rnd64_0 rnd64_1 rnd64_half rnd64_2
      rnd64_3 rnd64_3_halves)

section \<open>The angle of a complex number\<close>

lemma sqrt_one_plus_ratio:
  fixes x y :: real
  assumes "x \<noteq> 0"
  shows "sqrt (1 + (y / x)\<^sup>2) = sqrt (x\<^sup>2 + y\<^sup>2) / \<bar>x\<bar>"
proof -
  have "1 + (y / x)\<^sup>2 = (x\<^sup>2 + y\<^sup>2) / x\<^sup>2"
    using assms by (simp add: field_simps power2_eq_square)
  then show ?thesis
    by (simp add: real_sqrt_divide)
qed

lemma cos_arctan2:
  assumes "x \<noteq> 0 \<or> y \<noteq> 0"
  shows "cos (arctan2 y x) = x / sqrt (x\<^sup>2 + y\<^sup>2)"
proof -
  consider "0 < x" | "x < 0" | "x = 0" by linarith
  then show ?thesis
  proof cases
    case 1
    then show ?thesis
      by (simp add: arctan2_def cos_arctan sqrt_one_plus_ratio)
  next
    case 2
    then show ?thesis
      by (simp add: arctan2_def cos_arctan sqrt_one_plus_ratio cos_diff cos_add)
  next
    case 3
    then show ?thesis using assms
      by (simp add: arctan2_def)
  qed
qed

lemma sin_arctan2:
  assumes "x \<noteq> 0 \<or> y \<noteq> 0"
  shows "sin (arctan2 y x) = y / sqrt (x\<^sup>2 + y\<^sup>2)"
proof -
  consider "0 < x" | "x < 0" | "x = 0" by linarith
  then show ?thesis
  proof cases
    case 1
    then show ?thesis
      by (simp add: arctan2_def sin_arctan sqrt_one_plus_ratio)
  next
    case 2
    then show ?thesis
      by (simp add: arctan2_def sin_arctan sqrt_one_plus_ratio sin_diff sin_add)
  next
    case 3
    then show ?thesis using assms
      by (auto simp add: arctan2_def real_sqrt_abs)
  qed
qed

lemma arctan2_bounds: "- pi < arctan2 y x \<and> arctan2 y x \<le> pi"
proof -
  have a: "- (pi / 2) < arctan (y / x)" "arctan (y / x) < pi / 2"
    by (rule arctan_lbound, rule arctan_ubound)
  have neg: "arctan (y / x) \<le> 0" if "x < 0" "0 \<le> y"
  proof -
    have "y / x \<le> 0" using that by (simp add: divide_nonneg_neg)
    then show ?thesis by (simp add: arctan_le_zero_iff)
  qed
  have pos: "0 < arctan (y / x)" if "x < 0" "y < 0"
  proof -
    have "0 < y / x" using that by (simp add: divide_neg_neg)
    then show ?thesis by (simp add: zero_less_arctan_iff)
  qed
  have pi0: "0 < pi" by simp
  consider "0 < x" | "x < 0" "0 \<le> y" | "x < 0" "y < 0" | "x = 0" by linarith
  then show ?thesis
  proof cases
    case 1
    then show ?thesis using a pi0 by (simp add: arctan2_def)
  next
    case 2
    then show ?thesis using a neg pi0 by (simp add: arctan2_def)
  next
    case 3
    then show ?thesis using a pos pi0 by (simp add: arctan2_def)
  next
    case 4
    moreover have "- (pi / 2) \<le> pi" using pi0 by linarith
    ultimately show ?thesis by (simp add: arctan2_def)
  qed
qed

lemma cis_arctan2:
  assumes "z \<noteq> 0"
  shows "cis (arctan2 (Im z) (Re z)) = sgn z"
proof -
  have nz: "Re z \<noteq> 0 \<or> Im z \<noteq> 0" using assms by (auto simp: complex_eq_iff)
  show ?thesis
    by (simp add: complex_eq_iff cos_arctan2 [OF nz] sin_arctan2 [OF nz] cmod_def)
qed

text \<open>The mathematical \<open>arctan2\<close> is the principal argument, with the angle 0 at 0.\<close>

lemma arctan2_eq_Arg: "arctan2 (Im z) (Re z) = Arg z"
proof (cases "z = 0")
  case True
  then show ?thesis by (simp add: arctan2_def Arg_zero)
next
  case False
  show ?thesis
    by (rule sym, rule cis_Arg_unique)
       (simp_all add: cis_arctan2 [OF False] arctan2_bounds)
qed

lemma sin_Arg_scaled_cis:
  assumes "0 < r"
  shows "sin (Arg (of_real r * cis a) + p) = sin (a + p)"
proof -
  have nz: "of_real r * cis a \<noteq> 0" using assms by simp
  have "cis (Arg (of_real r * cis a)) = sgn (of_real r * cis a)"
    by (rule cis_Arg [OF nz])
  also have "\<dots> = cis a"
    using assms by (simp add: sgn_mult sgn_of_real)
  finally have "cis (Arg (of_real r * cis a)) = cis a" .
  then have "cis (Arg (of_real r * cis a) + p) = cis (a + p)"
    by (simp add: cis_mult [symmetric])
  then show ?thesis
    by (simp add: complex_eq_iff)
qed


section \<open>The contrast-response transform\<close>

lemma py_pow_1: "py_pow env (Fin x) 1 = Inr (Fin x)"
  by (simp add: is_integral_def)

lemma np_pow_1: "np_pow env v 1 = v"
  by (cases v) (simp_all add: is_integral_def)

text \<open>Line 66 at the order 1, in any arithmetic.\<close>

lemma CR_py_1:
  "LGNnode_get_contrast_response env self (PyFloat (Fin c)) 1 =
     (if np_add env (Fin c) (Fin (C50 self)) = Fin 0 then Inl ZeroDivisionError
      else Inr (PyFloat (np_add env
        (np_div env (np_mul env (Fin (Rmax self)) (Fin c)) (np_add env (Fin c) (Fin (C50 self))))
        (Fin (Rbase self)))))"
  by (simp add: LGNnode_get_contrast_response_def py_pow_1 del: py_pow.simps np_add.simps
      np_mul.simps np_div.simps)

lemma CR_np_1:
  "LGNnode_get_contrast_response env self (NpFloat v) 1 =
     Inr (NpFloat (np_add env
        (np_div env (np_mul env (Fin (Rmax self)) v) (np_add env v (Fin (C50 self))))
        (Fin (Rbase self))))"
  by (simp add: LGNnode_get_contrast_response_def py_pow_1 np_pow_1 del: py_pow.simps
      np_pow.simps np_add.simps np_mul.simps np_div.simps)

lemma CR_py_exact:
  "c + C50 self \<noteq> 0 \<Longrightarrow>
   LGNnode_get_contrast_response exact_arith self (PyFloat (Fin c)) 1
     = Inr (PyFloat (Fin (spec_CR self c)))"
  by (simp add: CR_py_1 spec_CR_def)

lemma CR_py_exact_zero:
  "c + C50 self = 0 \<Longrightarrow>
   LGNnode_get_contrast_response exact_arith self (PyFloat (Fin c)) 1 = Inl ZeroDivisionError"
  by (simp add: CR_py_1)

lemma CR_np_exact:
  "c + C50 self \<noteq> 0 \<Longrightarrow>
   LGNnode_get_contrast_response exact_arith self (NpFloat (Fin c)) 1
     = Inr (NpFloat (Fin (spec_CR self c)))"
  by (simp add: CR_np_1 spec_CR_def)

lemma default_fields:
  "center LGNnode_default = (0, 0)" "nonlinear LGNnode_default = relu"
  "Rmax LGNnode_default = default_Rmax" "C50 LGNnode_default = 1 / 2"
  "Rbase LGNnode_default = 0"
  by (simp_all add: LGNnode_default_def LGNnode_init_def)

lemma py_pow_zero_pos: "0 < y \<Longrightarrow> py_pow env (Fin 0) y = Inr (Fin 0)"
  by simp

lemma np_pow_zero_pos: "0 < y \<Longrightarrow> np_pow env (Fin 0) y = Fin 0"
  by simp

text \<open>
  C6, as amended: in any arithmetic that rounds 0 to 0, for a representable \<open>Rbase\<close> and
  every order greater than 0 at which \<open>C50 ** order\<close> evaluates to a finite number other
  than 0 (no underflow to 0, no \<open>OverflowError\<close>), the contrast-response transform at
  contrast 0 returns \<open>Rbase\<close> exactly, for a Python float 0 and for a NumPy 0.
\<close>

theorem contrast_response_at_zero:
  assumes "rounds_zero env" "representable env (Rbase self)"
    and "0 < order'"
    and "py_pow env (Fin (C50 self)) order' = Inr (Fin q)" "q \<noteq> 0" "representable env q"
  shows "LGNnode_get_contrast_response env self (PyFloat (Fin 0)) order'
           = Inr (PyFloat (Fin (Rbase self)))
       \<and> LGNnode_get_contrast_response env self (NpFloat (Fin 0)) order'
           = Inr (NpFloat (Fin (Rbase self)))"
  using assms
  by (simp add: LGNnode_get_contrast_response_def py_pow_zero_pos np_pow_zero_pos
      rounds_zero_def representable_def del: py_pow.simps np_pow.simps)

lemma rnd64_quarter: "rnd64 (1/4) = Fin (1/4)"
  using rnd64_eval [of "-2" "1/4" "-54" "4503599627370496"] by (simp add: power_int_minus)

lemma py_pow_half_squared: "py_pow binary64_arith (Fin (1/2)) 2 = Inr (Fin (1/4))"
proof -
  have rp: "real_pow (1/2) 2 = 1/4"
    by (simp add: real_pow_def is_integral_def power2_eq_square)
  show ?thesis
    by (simp add: binary64_fields rp rnd64_quarter is_integral_def)
qed

theorem contrast_response_at_zero_witness:
  "rounds_zero binary64_arith
   \<and> representable binary64_arith (Rbase (LGNnode_init (0, 0) relu 3 (1/2) (3/2)))
   \<and> (0::real) < 2
   \<and> py_pow binary64_arith (Fin (C50 (LGNnode_init (0, 0) relu 3 (1/2) (3/2)))) 2
       = Inr (Fin (1/4))
   \<and> (1/4::real) \<noteq> 0 \<and> representable binary64_arith (1/4)
   \<and> LGNnode_get_contrast_response binary64_arith (LGNnode_init (0, 0) relu 3 (1/2) (3/2))
        (PyFloat (Fin 0)) 2 = Inr (PyFloat (Fin (3/2)))
   \<and> LGNnode_get_contrast_response binary64_arith (LGNnode_init (0, 0) relu 3 (1/2) (3/2))
        (NpFloat (Fin 0)) 2 = Inr (NpFloat (Fin (3/2)))"
proof -
  let ?m = "LGNnode_init (0, 0) relu 3 (1/2) (3/2)"
  have h1: "rounds_zero binary64_arith" by (rule binary64_rounds)
  have h2: "representable binary64_arith (Rbase ?m)"
    by (simp add: LGNnode_init_def binary64_representable)
  have h3: "(0::real) < 2" by simp
  have h4: "py_pow binary64_arith (Fin (C50 ?m)) 2 = Inr (Fin (1/4))"
    by (simp only: LGNnode_init_def LGNnode.simps py_pow_half_squared)
  have h5: "(1/4::real) \<noteq> 0" by simp
  have h6: "representable binary64_arith (1/4)"
    by (simp add: representable_def binary64_fields rnd64_quarter)
  show ?thesis
    using contrast_response_at_zero [OF h1 h2 h3 h4 h5 h6] h1 h2 h4 h6
    by (simp add: LGNnode_init_def)
qed

lemma rnd64_underflow: "rnd64 (2 powi (- 1075)) = Fin 0"
proof -
  have t: "round_even (2 powi (- 1075) / 2 powi (- 1074)) = 0"
    by (rule round_even_tie_even) (simp_all add: power_int_minus)
  show ?thesis
    using rnd64_rounded [of "-1075" "2 powi (- 1075)" "-1074" 0] t
    by (simp add: power_int_minus)
qed

lemma py_pow_underflow: "py_pow binary64_arith (Fin (1/2)) 1075 = Inr (Fin 0)"
proof -
  have rp: "real_pow (1/2) 1075 = 2 powi (- 1075)"
    by (simp add: real_pow_def is_integral_def power_int_minus power_one_over)
  show ?thesis
    by (simp add: binary64_fields is_integral_def) (simp only: rp rnd64_underflow npfloat.case)
qed

text \<open>
  C6 as stated fails at the order 1075, for which \<open>0 ** order = 0\<close> is defined: with the
  default \<open>C50 = 0.5\<close> the power \<open>0.5 ** 1075\<close> underflows to 0, the denominator is 0 and
  the transform at contrast 0 raises \<open>ZeroDivisionError\<close> instead of returning \<open>Rbase\<close>.
\<close>

theorem contrast_response_underflow_example:
  "0 \<le> Rmax LGNnode_default \<and> 0 < C50 LGNnode_default
   \<and> py_pow binary64_arith (Fin 0) 1075 = Inr (Fin 0)
   \<and> LGNnode_get_contrast_response binary64_arith LGNnode_default (PyFloat (Fin 0)) 1075
       = Inl ZeroDivisionError"
proof -
  have "LGNnode_get_contrast_response binary64_arith LGNnode_default (PyFloat (Fin 0)) 1075
       = Inl ZeroDivisionError"
    by (simp add: LGNnode_get_contrast_response_def default_fields py_pow_underflow
        py_pow_zero_pos binary64_fields rnd64_0 del: py_pow.simps)
  then show ?thesis
    by (simp add: default_fields default_Rmax_def)
qed

text \<open>
  At the order 0, where Python defines \<open>0 ** 0 = 1\<close>, the transform is \<open>Rmax / 2 + Rbase\<close>
  at every contrast (in exact arithmetic).
\<close>

lemma CR_order_zero_exact:
  "LGNnode_get_contrast_response exact_arith self (PyFloat (Fin c)) 0
     = Inr (PyFloat (Fin (Rmax self / 2 + Rbase self)))"
  by (simp add: LGNnode_get_contrast_response_def)

text \<open>
  C9, as amended: in exact real arithmetic, for \<open>Rmax \<ge> 0\<close>, \<open>C50 > 0\<close> and order 1 the
  contrast-response transform returns a value at every contrast in \<open>[0, 1]\<close> and is
  monotonically non-decreasing there; it is the same function of a Python float and of
  a NumPy value.
\<close>

theorem contrast_response_mono:
  assumes "0 \<le> Rmax self" "0 < C50 self" "0 \<le> c1" "c1 \<le> c2" "c2 \<le> 1"
  shows "\<exists>r1 r2. r1 \<le> r2
     \<and> LGNnode_get_contrast_response exact_arith self (PyFloat (Fin c1)) 1 = Inr (PyFloat (Fin r1))
     \<and> LGNnode_get_contrast_response exact_arith self (PyFloat (Fin c2)) 1 = Inr (PyFloat (Fin r2))
     \<and> LGNnode_get_contrast_response exact_arith self (NpFloat (Fin c1)) 1
         = Inr (NpFloat (Fin r1))
     \<and> LGNnode_get_contrast_response exact_arith self (NpFloat (Fin c2)) 1
         = Inr (NpFloat (Fin r2))"
proof -
  have p1: "0 < c1 + C50 self" and p2: "0 < c2 + C50 self" using assms by linarith+
  have "c1 / (c1 + C50 self) \<le> c2 / (c2 + C50 self)"
    using assms p1 p2 by (simp add: field_simps)
  then have "Rmax self * (c1 / (c1 + C50 self)) \<le> Rmax self * (c2 / (c2 + C50 self))"
    using assms(1) by (rule mult_left_mono)
  then have "spec_CR self c1 \<le> spec_CR self c2"
    by (simp add: spec_CR_def)
  then show ?thesis using p1 p2 by (simp add: CR_py_exact CR_np_exact)
qed

theorem contrast_response_mono_witness:
  "0 \<le> Rmax (LGNnode_init (0, 0) relu (113/10) (1/2) 0)
   \<and> 0 < C50 (LGNnode_init (0, 0) relu (113/10) (1/2) 0)
   \<and> (0::real) \<le> 1/4 \<and> (1/4::real) \<le> 1/2 \<and> (1/2::real) \<le> 1
   \<and> (\<exists>r1 r2. r1 \<le> r2
         \<and> LGNnode_get_contrast_response exact_arith (LGNnode_init (0, 0) relu (113/10) (1/2) 0)
             (PyFloat (Fin (1/4))) 1 = Inr (PyFloat (Fin r1))
         \<and> LGNnode_get_contrast_response exact_arith (LGNnode_init (0, 0) relu (113/10) (1/2) 0)
             (PyFloat (Fin (1/2))) 1 = Inr (PyFloat (Fin r2))
         \<and> LGNnode_get_contrast_response exact_arith (LGNnode_init (0, 0) relu (113/10) (1/2) 0)
             (NpFloat (Fin (1/4))) 1 = Inr (NpFloat (Fin r1))
         \<and> LGNnode_get_contrast_response exact_arith (LGNnode_init (0, 0) relu (113/10) (1/2) 0)
             (NpFloat (Fin (1/2))) 1 = Inr (NpFloat (Fin r2)))"
  using contrast_response_mono [of "LGNnode_init (0, 0) relu (113/10) (1/2) 0" "1/4" "1/2"]
  by (simp add: LGNnode_init_def)

section \<open>The contrast-response transform in binary64\<close>

lemma rnd64_Rmax_lo:
  "rnd64 (default_Rmax * contrast_lo) = Fin (683800937391305 / 70368744177664)"
  using rnd64_eval [of 3 "default_Rmax * contrast_lo" "-49" 5470407499130440]
  by (simp add: power_int_minus default_Rmax_def contrast_lo_def)

lemma rnd64_Rmax_hi:
  "rnd64 (default_Rmax * contrast_hi) = Fin (683800937391305 / 70368744177664)"
  using rnd64_eval [of 3 "default_Rmax * contrast_hi" "-49" 5470407499130440]
  by (simp add: power_int_minus default_Rmax_def contrast_hi_def)

lemma rnd64_sum_lo:
  "rnd64 (contrast_lo + 1 / 2) = Fin (6124654680326267 / 4503599627370496)"
  using rnd64_eval [of 0 "contrast_lo + 1 / 2" "-52" 6124654680326267]
  by (simp add: power_int_minus contrast_lo_def)

lemma rnd64_sum_hi:
  "rnd64 (contrast_hi + 1 / 2) = Fin (1531163670081567 / 1125899906842624)"
proof -
  have t: "round_even ((contrast_hi + 1 / 2) / 2 powi (- 52)) = 6124654680326267 + 1"
    by (rule round_even_tie_odd) (simp_all add: power_int_minus contrast_hi_def)
  show ?thesis
    using rnd64_rounded [of 0 "contrast_hi + 1 / 2" "-52" "6124654680326267 + 1"] t
    by (simp add: power_int_minus contrast_hi_def)
qed

lemma rnd64_quot_lo:
  "rnd64 (683800937391305 / 70368744177664 / (6124654680326267 / 4503599627370496))
     = Fin (1005629152194757 / 140737488355328)"
  using rnd64_eval [of 2
      "683800937391305 / 70368744177664 / (6124654680326267 / 4503599627370496)" "-50"
      8045033217558056]
  by (simp add: power_int_minus)

lemma rnd64_quot_hi:
  "rnd64 (683800937391305 / 70368744177664 / (1531163670081567 / 1125899906842624))
     = Fin (4022516608779027 / 562949953421312)"
  using rnd64_eval [of 2
      "683800937391305 / 70368744177664 / (1531163670081567 / 1125899906842624)" "-50"
      8045033217558054]
  by (simp add: power_int_minus)

lemma rnd64_res_lo:
  "rnd64 (1005629152194757 / 140737488355328 + 0) = Fin (1005629152194757 / 140737488355328)"
  using rnd64_eval [of 2 "1005629152194757 / 140737488355328" "-50" 8045033217558056]
  by (simp add: power_int_minus)

lemma rnd64_res_hi:
  "rnd64 (4022516608779027 / 562949953421312 + 0) = Fin (4022516608779027 / 562949953421312)"
  using rnd64_eval [of 2 "4022516608779027 / 562949953421312" "-50" 8045033217558054]
  by (simp add: power_int_minus)

lemma CR_default_lo:
  "LGNnode_get_contrast_response binary64_arith LGNnode_default (PyFloat (Fin contrast_lo)) 1
     = Inr (PyFloat (Fin (1005629152194757 / 140737488355328)))"
proof -
  have den: "np_add binary64_arith (Fin contrast_lo) (Fin (1 / 2))
      = Fin (6124654680326267 / 4503599627370496)"
    by (simp only: np_add.simps binary64_fields rnd64_sum_lo)
  have num: "np_mul binary64_arith (Fin default_Rmax) (Fin contrast_lo)
      = Fin (683800937391305 / 70368744177664)"
    by (simp only: np_mul.simps binary64_fields rnd64_Rmax_lo)
  have nz: "(6124654680326267 / 4503599627370496 :: real) \<noteq> 0" by simp
  have quot: "np_div binary64_arith (Fin (683800937391305 / 70368744177664))
        (Fin (6124654680326267 / 4503599627370496))
      = Fin (1005629152194757 / 140737488355328)"
    using nz by (simp only: np_div.simps binary64_fields rnd64_quot_lo if_False)
  have res: "np_add binary64_arith (Fin (1005629152194757 / 140737488355328)) (Fin 0)
      = Fin (1005629152194757 / 140737488355328)"
    by (simp only: np_add.simps binary64_fields rnd64_res_lo)
  have ne: "Fin (6124654680326267 / 4503599627370496 :: real) \<noteq> Fin 0" by simp
  show ?thesis
    using ne by (simp only: CR_py_1 default_fields den num quot res if_False)
qed

lemma CR_default_hi:
  "LGNnode_get_contrast_response binary64_arith LGNnode_default (PyFloat (Fin contrast_hi)) 1
     = Inr (PyFloat (Fin (4022516608779027 / 562949953421312)))"
proof -
  have den: "np_add binary64_arith (Fin contrast_hi) (Fin (1 / 2))
      = Fin (1531163670081567 / 1125899906842624)"
    by (simp only: np_add.simps binary64_fields rnd64_sum_hi)
  have num: "np_mul binary64_arith (Fin default_Rmax) (Fin contrast_hi)
      = Fin (683800937391305 / 70368744177664)"
    by (simp only: np_mul.simps binary64_fields rnd64_Rmax_hi)
  have nz: "(1531163670081567 / 1125899906842624 :: real) \<noteq> 0" by simp
  have quot: "np_div binary64_arith (Fin (683800937391305 / 70368744177664))
        (Fin (1531163670081567 / 1125899906842624))
      = Fin (4022516608779027 / 562949953421312)"
    using nz by (simp only: np_div.simps binary64_fields rnd64_quot_hi if_False)
  have res: "np_add binary64_arith (Fin (4022516608779027 / 562949953421312)) (Fin 0)
      = Fin (4022516608779027 / 562949953421312)"
    by (simp only: np_add.simps binary64_fields rnd64_res_hi)
  have ne: "Fin (1531163670081567 / 1125899906842624 :: real) \<noteq> Fin 0" by simp
  show ?thesis
    using ne by (simp only: CR_py_1 default_fields den num quot res if_False)
qed

text \<open>
  C9 as stated fails in binary64: for the default subunit and the adjacent contrasts
  \<open>0.8599465287952899 < 0.85994652879529\<close> line 66 returns \<open>7.145424889605728\<close> for the
  smaller contrast and \<open>7.145424889605726\<close> for the larger one (the sum \<open>c + 0.5\<close> of the
  larger contrast is a tie that rounds up, and the quotient drops).
\<close>

theorem contrast_response_rounding_example:
  "0 \<le> Rmax LGNnode_default \<and> 0 < C50 LGNnode_default
   \<and> 0 \<le> contrast_lo \<and> contrast_lo \<le> contrast_hi \<and> contrast_hi \<le> 1
   \<and> LGNnode_get_contrast_response binary64_arith LGNnode_default (PyFloat (Fin contrast_lo)) 1
       = Inr (PyFloat (Fin (1005629152194757 / 140737488355328)))
   \<and> LGNnode_get_contrast_response binary64_arith LGNnode_default (PyFloat (Fin contrast_hi)) 1
       = Inr (PyFloat (Fin (4022516608779027 / 562949953421312)))
   \<and> (4022516608779027 / 562949953421312 :: real) < 1005629152194757 / 140737488355328"
proof -
  have "0 \<le> Rmax LGNnode_default" "0 < C50 LGNnode_default"
    by (simp_all add: default_fields default_Rmax_def)
  moreover have "0 \<le> contrast_lo" "contrast_lo \<le> contrast_hi" "contrast_hi \<le> 1"
    by (simp_all add: contrast_lo_def contrast_hi_def)
  moreover have "(4022516608779027 / 562949953421312 :: real)
      < 1005629152194757 / 140737488355328"
    by simp
  ultimately show ?thesis
    using CR_default_lo CR_default_hi by blast
qed

section \<open>nonlinearity.py: relu\<close>

lemma relu_elementwise: "relu v = map_pyval relu_scalar v"
  by (cases v) (simp_all add: relu_def relu_scalar_def)

lemma relu_scalar_Fin: "relu_scalar (Fin a) = Fin (max 0 a)"
  by (simp add: relu_scalar_def max_def)

lemma relu_finite:
  "relu (map_pyval (\<lambda>p. Fin (g p)) v) = map_pyval (\<lambda>p. Fin (max 0 (g p))) v"
  by (simp add: relu_elementwise pyval.map_comp o_def relu_scalar_Fin)

lemma all_ge0_max: "all_ge0 (map_pyval (\<lambda>p. Fin (max 0 (g p))) v)"
  by (cases v) (simp_all add: list_all_iff)

lemma relu_scalar_not_neg: "not_neg (relu_scalar v)"
  by (cases v) (simp_all add: relu_scalar_def not_neg_def)

lemma relu_none_neg: "none_neg (relu v)"
  by (cases v) (simp_all add: relu_elementwise relu_scalar_not_neg list_all_iff)

lemma relu_array: "\<exists>ys. relu (map_pyval g (Array ps)) = Array ys \<and> length ys = length ps
    \<and> list_all not_neg ys"
  by (simp add: relu_elementwise list_all_iff relu_scalar_not_neg)

section \<open>The subunit: response to a grating\<close>

text \<open>
The response to a grating, in any arithmetic.
\<close>

lemma grating_unfold:
  "LGNnode_get_response_grating env self ori c phase sf =
     (if np_add env (Fin c) (Fin (C50 self)) = Fin 0 then Inl ZeroDivisionError
      else Inr (nonlinear self (map_pyval
        (\<lambda>p. np_mul env
           (np_add env
              (np_div env (np_mul env (Fin (Rmax self)) (Fin c))
                 (np_add env (Fin c) (Fin (C50 self))))
              (Fin (Rbase self)))
           (np_mul env (np_sin env (np_add env (dist_phi env self ori sf) p)) (Fin 2)))
        phase)))"
  by (simp add: LGNnode_get_response_grating_def LGNnode_get_sinusoidal_def Let_def CR_py_1
      pyval.map_comp o_def del: np_add.simps np_mul.simps np_div.simps np_sin.simps)

lemma grating_returns:
  "np_add env (Fin c) (Fin (C50 self)) \<noteq> Fin 0 \<Longrightarrow>
   \<exists>r. LGNnode_get_response_grating env self ori c phase sf = Inr r"
  by (simp add: grating_unfold del: np_add.simps np_mul.simps np_div.simps np_sin.simps)

lemma dist_phi_exact:
  "sf \<noteq> 0 \<Longrightarrow> dist_phi exact_arith self ori sf = Fin (spec_phase_offset self ori sf)"
  by (simp add: dist_phi_def spec_phase_offset_def mult.commute)

lemma grating_exact:
  assumes "sf \<noteq> 0" "c + C50 self \<noteq> 0"
  shows "LGNnode_get_response_grating exact_arith self ori c (map_pyval Fin phase) sf =
     Inr (nonlinear self (map_pyval
       (\<lambda>p. Fin (spec_CR self c * (2 * sin (spec_phase_offset self ori sf + p)))) phase))"
  using assms
  by (simp add: grating_unfold dist_phi_exact pyval.map_comp o_def spec_CR_def mult.commute)




lemma np_mul_zero: "rounds_zero env \<Longrightarrow> np_mul env (Fin 0) l = zero_or_nan l"
  by (cases l) (simp_all add: rounds_zero_def)

text \<open>
  C5, as amended: for a subunit with the relu nonlinearity, a representable \<open>C50 > 0\<close>
  and \<open>Rbase = 0\<close> (any \<open>Rmax\<close>), in any arithmetic that rounds 0 to 0, the grating
  response at contrast 0 is, at each phase, 0 where the luminance computed for that
  phase is a finite number and \<open>nan\<close> where it is not; in exact real arithmetic it is 0
  at every phase and orientation and every \<open>sf \<noteq> 0\<close>.
\<close>

theorem grating_zero_contrast:
  assumes "nonlinear self = relu" "0 < C50 self" "Rbase self = 0"
    and "rounds_zero env" "representable env (C50 self)"
  shows "LGNnode_get_response_grating env self ori 0 phase sf
           = Inr (map_pyval zero_or_nan (fst (LGNnode_get_sinusoidal env self ori 0 phase sf)))
       \<and> (sf \<noteq> 0 \<longrightarrow>
            LGNnode_get_response_grating exact_arith self ori 0 (map_pyval Fin ps) sf
              = Inr (map_pyval (\<lambda>p. Fin 0) ps))"
proof
  have z: "rnd env 0 = Fin 0" using assms(4) by (simp add: rounds_zero_def)
  have c: "rnd env (C50 self) = Fin (C50 self)" using assms(5) by (simp add: representable_def)
  have r: "relu_scalar (zero_or_nan x) = zero_or_nan x" for x
    by (cases x) (simp_all add: relu_scalar_def)
  have den: "np_add env (Fin 0) (Fin (C50 self)) = Fin (C50 self)"
    using c by simp
  have cr: "np_add env (np_div env (np_mul env (Fin (Rmax self)) (Fin 0)) (Fin (C50 self)))
              (Fin (Rbase self)) = Fin 0"
    using assms(2,3) z by simp
  show "LGNnode_get_response_grating env self ori 0 phase sf
           = Inr (map_pyval zero_or_nan (fst (LGNnode_get_sinusoidal env self ori 0 phase sf)))"
    using assms(1,2)
    by (simp add: grating_unfold den cr np_mul_zero [OF assms(4)] LGNnode_get_sinusoidal_def
        Let_def relu_elementwise r pyval.map_comp o_def
        del: np_mul.simps np_add.simps np_div.simps)
  show "sf \<noteq> 0 \<longrightarrow>
            LGNnode_get_response_grating exact_arith self ori 0 (map_pyval Fin ps) sf
              = Inr (map_pyval (\<lambda>p. Fin 0) ps)"
    using assms(1,2,3) by (simp add: grating_exact relu_finite spec_CR_def)
qed

theorem grating_zero_contrast_witness:
  "nonlinear (LGNnode_init (3, 4) relu 3 (1/2) 0) = relu
   \<and> 0 < C50 (LGNnode_init (3, 4) relu 3 (1/2) 0)
   \<and> Rbase (LGNnode_init (3, 4) relu 3 (1/2) 0) = 0
   \<and> rounds_zero binary64_arith
   \<and> representable binary64_arith (C50 (LGNnode_init (3, 4) relu 3 (1/2) 0))
   \<and> (50::real) \<noteq> 0
   \<and> LGNnode_get_response_grating binary64_arith (LGNnode_init (3, 4) relu 3 (1/2) 0) 1 0
        (Array [Fin 0, Fin 2]) 50
      = Inr (map_pyval zero_or_nan (fst (LGNnode_get_sinusoidal binary64_arith
            (LGNnode_init (3, 4) relu 3 (1/2) 0) 1 0 (Array [Fin 0, Fin 2]) 50)))
   \<and> LGNnode_get_response_grating exact_arith (LGNnode_init (3, 4) relu 3 (1/2) 0) 1 0
        (Array [Fin 0, Fin (pi / 2), Fin 2]) 50 = Inr (Array [Fin 0, Fin 0, Fin 0])"
proof -
  let ?m = "LGNnode_init (3, 4) relu 3 (1/2) 0"
  have h1: "nonlinear ?m = relu" and h2: "0 < C50 ?m" and h3: "Rbase ?m = 0"
    by (simp_all add: LGNnode_init_def)
  have h4: "rounds_zero binary64_arith" by (rule binary64_rounds)
  have h5: "representable binary64_arith (C50 ?m)"
    by (simp add: LGNnode_init_def binary64_representable)
  have h6: "(50::real) \<noteq> 0" by simp
  note t = grating_zero_contrast [OF h1 h2 h3 h4 h5, of 1 "Array [Fin 0, Fin 2]" 50
      "Array [0, pi / 2, 2]"]
  show ?thesis using t h1 h2 h3 h4 h5 h6 by simp
qed

text \<open>
  C5 as stated fails for a baseline other than 0: at contrast 0 the contrast-response
  transform is \<open>Rbase\<close>, which multiplies the luminance. With \<open>Rbase = 1\<close>, the centre at
  the origin and phase \<open>pi / 2\<close> the response is \<open>relu(1 * 2) = 2\<close>.
\<close>

theorem grating_zero_contrast_baseline_example:
  "0 \<le> Rmax (LGNnode_init (0, 0) relu 3 (1/2) 1)
   \<and> 0 < C50 (LGNnode_init (0, 0) relu 3 (1/2) 1)
   \<and> LGNnode_get_response_grating exact_arith (LGNnode_init (0, 0) relu 3 (1/2) 1)
        0 0 (Scalar (Fin (pi / 2))) 50 = Inr (Scalar (Fin 2))"
  using grating_exact [of 50 0 "LGNnode_init (0, 0) relu 3 (1/2) 1" 0 "Scalar (pi / 2)"]
  by (simp add: LGNnode_init_def relu_def spec_CR_def spec_phase_offset_def)

section \<open>The subunit: response to a plaid\<close>

lemma np_angle_exact: "np_angle exact_arith (Fin re, Fin im) = Fin (Arg (Complex re im))"
  using arctan2_eq_Arg [of "Complex re im"] by simp

lemma np_abs_exact: "np_abs exact_arith (Fin re, Fin im) = Fin (cmod (Complex re im))"
  by (simp add: cmod_def)

lemma np_cscale_exact: "np_cscale exact_arith c (Fin re, Fin im) = (Fin (c * re), Fin (c * im))"
  by (simp add: np_sub_def)

lemma spec_plaid_vector_Complex:
  "spec_plaid_vector self ori1 ori2 c1 c2 dphase sf =
     Complex (c1 * cos (spec_phase_offset self ori1 sf)
                + c2 * cos (spec_phase_offset self ori2 sf + dphase))
             (c1 * sin (spec_phase_offset self ori1 sf)
                + c2 * sin (spec_phase_offset self ori2 sf + dphase))"
  unfolding spec_plaid_vector_def cis_conv_exp [symmetric]
  by (simp add: complex_eq_iff)

lemma get_sinusoidal_plaid_exact:
  "sf \<noteq> 0 \<Longrightarrow>
   LGNnode_get_sinusoidal_plaid exact_arith self ori1 ori2 c1 c2 (map_pyval Fin phase) dphase sf =
     (map_pyval (\<lambda>p. Fin (2 * sin
         (Arg (spec_plaid_vector self ori1 ori2 c1 c2 dphase sf) + p))) phase,
      NpFloat (Fin (cmod (spec_plaid_vector self ori1 ori2 c1 c2 dphase sf))))"
  by (simp add: LGNnode_get_sinusoidal_plaid_def dist_phi_exact np_cscale_exact
        np_angle_exact np_abs_exact spec_plaid_vector_Complex pyval.map_comp o_def mult.commute
        del: np_angle.simps np_abs.simps np_cscale.simps)

lemma plaid_exact:
  assumes "sf \<noteq> 0" "0 < C50 self"
  shows "LGNnode_get_response_plaid exact_arith self ori1 ori2 c1 c2 (map_pyval Fin phase)
           dphase sf =
     Inr (nonlinear self (map_pyval
       (\<lambda>p. Fin (spec_CR self (cmod (spec_plaid_vector self ori1 ori2 c1 c2 dphase sf))
               * (2 * sin (Arg (spec_plaid_vector self ori1 ori2 c1 c2 dphase sf) + p))))
       phase))"
proof -
  have "cmod (spec_plaid_vector self ori1 ori2 c1 c2 dphase sf) + C50 self \<noteq> 0"
    using assms(2) norm_ge_zero [of "spec_plaid_vector self ori1 ori2 c1 c2 dphase sf"]
    by linarith
  then show ?thesis using assms(1)
    by (simp add: LGNnode_get_response_plaid_def get_sinusoidal_plaid_exact CR_np_exact
        pyval.map_comp o_def)
qed


lemma vec_two_equal:
  assumes "0 < c"
  shows "cmod (spec_plaid_vector self ori ori c c 0 sf) = 2 * c"
    and "sin (Arg (spec_plaid_vector self ori ori c c 0 sf) + p)
           = sin (spec_phase_offset self ori sf + p)"
proof -
  have v: "spec_plaid_vector self ori ori c c 0 sf =
     of_real (2 * c) * cis (spec_phase_offset self ori sf)"
    by (simp add: spec_plaid_vector_def cis_conv_exp mult.commute)
  have c2: "0 < 2 * c" using assms by simp
  show "cmod (spec_plaid_vector self ori ori c c 0 sf) = 2 * c"
    unfolding v using assms by (simp add: norm_mult)
  show "sin (Arg (spec_plaid_vector self ori ori c c 0 sf) + p)
           = sin (spec_phase_offset self ori sf + p)"
    unfolding v by (rule sin_Arg_scaled_cis [OF c2])
qed








text \<open>
  In exact real arithmetic the plaid of two equal gratings (one orientation, both
  contrasts \<open>c > 0\<close>, \<open>dphase = 0\<close>) and the grating of contrast \<open>2 c\<close> return the same
  value. In binary64 the two are computed along different operations (the plaid through
  the cosine, sine, modulus and angle of the C library), so that their equality to the
  last bit is a matter of that library.
\<close>

lemma plaid_constructive_exact:
  assumes "0 < c" "sf \<noteq> 0" "0 < C50 self"
  shows "\<exists>r. LGNnode_get_response_plaid exact_arith self ori ori c c (map_pyval Fin phase) 0 sf
                = Inr r
            \<and> LGNnode_get_response_grating exact_arith self ori (2 * c) (map_pyval Fin phase) sf
                = Inr r"
proof -
  have "2 * c + C50 self \<noteq> 0" using assms by linarith
  then show ?thesis using assms
    by (simp add: plaid_exact grating_exact vec_two_equal)
qed

section \<open>The population\<close>

lemma cycle_response_empty:
  assumes "subunits self = []" "1 \<le> len"
  shows "cycle_response env self len phase f = Inr (replicate (nat len) NaN)"
  using assms by (simp add: cycle_response_def Let_def)

text \<open>
  C1, as amended: for a population with no subunits and every length of at least 1, in
  any arithmetic, both aggregation methods raise nothing: they return a curve of
  \<open>length\<close> entries, each of them \<open>nan\<close> (the sum 0 divided by the count 0).
\<close>

theorem empty_population_returns_nan:
  assumes "subunits self = []" "1 \<le> len"
  shows "V1node_get_response_grating env self len phase ori contrast sf
           = Inr (replicate (nat len) NaN)
       \<and> V1node_get_response_plaid env self len phase ori1 ori2 contrast1 contrast2 dphase sf
           = Inr (replicate (nat len) NaN)"
  using assms
  by (simp add: V1node_get_response_grating_def V1node_get_response_plaid_def
      cycle_response_empty)

theorem empty_population_returns_nan_witness:
  "subunits (V1node_init [] relu) = [] \<and> (1::int) \<le> 2
   \<and> V1node_get_response_grating binary64_arith (V1node_init [] relu) 2 0 0 (1/2) 50
       = Inr [NaN, NaN]
   \<and> V1node_get_response_plaid binary64_arith (V1node_init [] relu) 2 0 0 0 (1/2) (1/2) 0 50
       = Inr [NaN, NaN]"
  using empty_population_returns_nan
    [of "V1node_init [] relu" 2 binary64_arith 0 0 "1/2" 50 0 0 "1/2" "1/2" 0]
  by (simp add: V1node_init_def numeral_2_eq_2)

text \<open>
  C1 as stated fails: the default population \<open>V1node()\<close>, which has no subunits, asked for
  a grating curve of length 1 returns the array \<open>[nan]\<close> and no error.
\<close>

theorem empty_population_example:
  "V1node_get_response_grating binary64_arith (V1node_init [] relu) 1 0 0 (1/2) 50 = Inr [NaN]"
  by (simp add: V1node_get_response_grating_def V1node_init_def cycle_response_def Let_def)

text \<open>
  C2: in any arithmetic, two populations over the same subunits that differ in their own
  nonlinearity return the same grating curve and the same plaid curve (or raise the same
  error), at every length, phase and stimulus.
\<close>

theorem population_nonlinearity_unused:
  "V1node_get_response_grating env (V1node_init us nl1) len phase ori contrast sf
     = V1node_get_response_grating env (V1node_init us nl2) len phase ori contrast sf
   \<and> V1node_get_response_plaid env (V1node_init us nl1) len phase ori1 ori2 contrast1 contrast2
       dphase sf
     = V1node_get_response_plaid env (V1node_init us nl2) len phase ori1 ori2 contrast1 contrast2
       dphase sf"
  by (simp add: V1node_get_response_grating_def V1node_get_response_plaid_def
      cycle_response_def V1node_init_def cong: sum.case_cong)

section \<open>Responses under relu\<close>

lemma not_neg_add:
  assumes "rounds_sign env" "not_neg a" "not_neg b"
  shows "not_neg (np_add env a b)"
proof -
  have s: "np_ge0 (rnd env \<bar>x\<bar>)" for x using assms(1) by (simp add: rounds_sign_def)
  show ?thesis
  proof (cases a; cases b)
    fix x y assume ab: "a = Fin x" "b = Fin y"
    then have "0 \<le> x + y" using assms(2,3) by (simp add: not_neg_def)
    then have "np_ge0 (rnd env (x + y))"
      using s [of "x + y"] by (simp only: abs_of_nonneg)
    then show ?thesis using ab by (simp add: not_neg_def)
  qed (use assms(2,3) in \<open>simp_all add: not_neg_def\<close>)
qed

lemma not_neg_div:
  assumes "rounds_sign env" "not_neg a" "0 < k"
  shows "not_neg (np_div env a (Fin k))"
proof -
  have s: "np_ge0 (rnd env \<bar>x\<bar>)" for x using assms(1) by (simp add: rounds_sign_def)
  show ?thesis
  proof (cases a)
    case (Fin x)
    then have "0 \<le> x / k" using assms(2,3) by (simp add: not_neg_def)
    then have "np_ge0 (rnd env (x / k))"
      using s [of "x / k"] by (simp only: abs_of_nonneg)
    then show ?thesis using Fin assms(3) by (simp add: not_neg_def)
  qed (use assms(2,3) in \<open>simp_all add: not_neg_def\<close>)
qed

lemma list_all_zip_add:
  assumes "rounds_sign env" "list_all not_neg xs" "list_all not_neg ys"
  shows "list_all not_neg (map (\<lambda>(a, b). np_add env a b) (zip xs ys))"
  using assms
  by (auto simp add: list_all_iff intro!: not_neg_add dest: set_zip_leftD set_zip_rightD)

lemma np_iadd_same_length:
  "length ys = length resp \<Longrightarrow>
   np_iadd env resp (Array ys) = Inr (map (\<lambda>(a, b). np_add env a b) (zip resp ys))"
  by (simp add: np_iadd_def)

lemma pool_not_neg:
  assumes "rounds_sign env"
    and "\<And>item r. item \<in> set us \<Longrightarrow> f item = Inr r \<Longrightarrow>
             \<exists>ys. r = Array ys \<and> length ys = n \<and> list_all not_neg ys"
    and "length resp = n" "list_all not_neg resp" "pool env f us resp = Inr out"
  shows "length out = n \<and> list_all not_neg out"
  using assms(2-)
proof (induction us arbitrary: resp)
  case Nil
  then show ?case by simp
next
  case (Cons item rest)
  from Cons.prems(4) obtain r where r: "f item = Inr r"
    by (cases "f item") simp_all
  with Cons.prems(1) [of item r] obtain ys
    where ys: "r = Array ys" "length ys = n" "list_all not_neg ys" by auto
  let ?resp = "map (\<lambda>(a, b). np_add env a b) (zip resp ys)"
  have step: "np_iadd env resp r = Inr ?resp"
    using ys Cons.prems(2) by (simp add: np_iadd_same_length)
  have p: "pool env f rest ?resp = Inr out"
    using Cons.prems(4) r step by simp
  have l: "length ?resp = n" using ys Cons.prems(2) by simp
  have g: "list_all not_neg ?resp"
    using assms(1) Cons.prems(3) ys(3) by (rule list_all_zip_add)
  have rest: "\<exists>ys. r' = Array ys \<and> length ys = n \<and> list_all not_neg ys"
    if "it \<in> set rest" "f it = Inr r'" for it r'
    using Cons.prems(1) [of it r'] that by simp
  show ?case
    by (rule Cons.IH [OF rest l g p])
qed

lemma pool_returns:
  assumes "\<And>item. item \<in> set us \<Longrightarrow> \<exists>ys. f item = Inr (Array ys) \<and> length ys = n"
    and "length resp = n"
  shows "\<exists>out. pool env f us resp = Inr out"
  using assms
proof (induction us arbitrary: resp)
  case Nil
  then show ?case by simp
next
  case (Cons item rest)
  from Cons.prems(1) [of item] obtain ys
    where ys: "f item = Inr (Array ys)" "length ys = n" by auto
  let ?resp = "map (\<lambda>(a, b). np_add env a b) (zip resp ys)"
  have step: "np_iadd env resp (Array ys) = Inr ?resp"
    using ys Cons.prems(2) by (simp add: np_iadd_same_length)
  have l: "length ?resp = n" using ys Cons.prems(2) by simp
  have rest: "\<exists>ys. f it = Inr (Array ys) \<and> length ys = n" if "it \<in> set rest" for it
    using Cons.prems(1) [of it] that by simp
  have "\<exists>out. pool env f rest ?resp = Inr out"
    by (rule Cons.IH [OF rest l])
  then show ?case using ys step by simp
qed

lemma linspace_length: "0 < n \<Longrightarrow> length (linspace env a b n) = n"
  by (simp add: linspace_def Let_def)

lemma cycle_response_not_neg:
  assumes rs: "rounds_sign env" and ne: "subunits self \<noteq> []"
    and f: "\<And>item ps r. item \<in> set (subunits self) \<Longrightarrow> f item (Array ps) = Inr r \<Longrightarrow>
             \<exists>ys. r = Array ys \<and> length ys = length ps \<and> list_all not_neg ys"
    and ret: "cycle_response env self len phase f = Inr curve"
  shows "length curve = nat len \<and> list_all not_neg curve"
proof -
  have len: "0 < len"
    using ret by (cases "len < 0"; cases "len = 0") (simp_all add: cycle_response_def)
  define ps where "ps = map (\<lambda>s. np_add env s (Fin phase))
    (linspace env (Fin 0)
       (np_mul env (np_mul env (Fin 2) (Fin (lib_pi env)))
          (np_sub env (Fin 1) (np_div env (Fin 1) (Fin (real_of_int len)))))
       (nat len))"
  have lps: "length ps = nat len" using len by (simp add: ps_def linspace_length)
  obtain out where out: "pool env (\<lambda>item. f item (Array ps)) (subunits self)
      (replicate (nat len) (Fin 0)) = Inr out"
    and curve: "curve = map (\<lambda>a. np_div env a (Fin (real (length (subunits self))))) out"
    using ret len
    by (cases "pool env (\<lambda>item. f item (Array ps)) (subunits self)
            (replicate (nat len) (Fin 0))")
       (auto simp add: cycle_response_def Let_def ps_def)
  have "length out = nat len \<and> list_all not_neg out"
  proof (rule pool_not_neg [OF rs _ _ _ out])
    show "\<exists>ys. r = Array ys \<and> length ys = nat len \<and> list_all not_neg ys"
      if "item \<in> set (subunits self)" "f item (Array ps) = Inr r" for item r
      using f [OF that] lps by simp
    show "length (replicate (nat len) (Fin 0)) = nat len" by simp
    show "list_all not_neg (replicate (nat len) (Fin 0))"
      by (simp add: list_all_iff not_neg_def)
  qed
  moreover have "0 < real (length (subunits self))" using ne by simp
  ultimately show ?thesis
    unfolding curve using rs by (auto simp add: list_all_iff intro: not_neg_div)
qed

lemma cycle_response_returns:
  assumes len: "1 \<le> len"
    and f: "\<And>item ps. item \<in> set (subunits self) \<Longrightarrow>
             \<exists>ys. f item (Array ps) = Inr (Array ys) \<and> length ys = length ps"
  shows "\<exists>curve. cycle_response env self len phase f = Inr curve"
proof -
  define ps where "ps = map (\<lambda>s. np_add env s (Fin phase))
    (linspace env (Fin 0)
       (np_mul env (np_mul env (Fin 2) (Fin (lib_pi env)))
          (np_sub env (Fin 1) (np_div env (Fin 1) (Fin (real_of_int len)))))
       (nat len))"
  have lps: "length ps = nat len" using len by (simp add: ps_def linspace_length)
  have "\<exists>out. pool env (\<lambda>item. f item (Array ps)) (subunits self)
      (replicate (nat len) (Fin 0)) = Inr out"
  proof (rule pool_returns)
    show "\<exists>ys. f item (Array ps) = Inr (Array ys) \<and> length ys = nat len"
      if "item \<in> set (subunits self)" for item
      using f [OF that, of ps] lps by simp
    show "length (replicate (nat len) (Fin 0)) = nat len" by simp
  qed
  then show ?thesis using len
    by (auto simp add: cycle_response_def Let_def ps_def)
qed

text \<open>
The response to a plaid never raises.
\<close>

lemma plaid_unfold:
  "\<exists>g. \<forall>phase. LGNnode_get_response_plaid env self ori1 ori2 c1 c2 phase dphase sf
       = Inr (nonlinear self (map_pyval g phase))"
  by (auto simp add: LGNnode_get_response_plaid_def LGNnode_get_sinusoidal_plaid_def Let_def
      CR_np_1 pyval.map_comp o_def)

text \<open>
At the spatial frequency 0 the phase offset is not a number, in any arithmetic.
\<close>

lemma dist_phi_sf_zero:
  "dist_phi env self ori 0 = PInf \<or> dist_phi env self ori 0 = NInf
   \<or> dist_phi env self ori 0 = NaN"
proof -
  have d: "np_div env v (Fin 0) = PInf \<or> np_div env v (Fin 0) = NInf
      \<or> np_div env v (Fin 0) = NaN" for v
    by (cases v) simp_all
  have m: "np_mul env v (Fin k) = PInf \<or> np_mul env v (Fin k) = NInf
      \<or> np_mul env v (Fin k) = NaN" if "v = PInf \<or> v = NInf \<or> v = NaN" for v k
    using that by auto
  show ?thesis
    unfolding dist_phi_def by (rule m, rule m, rule d)
qed

lemma np_sin_not_finite:
  "d = PInf \<or> d = NInf \<or> d = NaN \<Longrightarrow> np_sin env (np_add env d p) = NaN"
  by (cases p) auto

lemma np_mul_nan: "np_mul env v NaN = NaN" "np_mul env NaN v = NaN"
  by (cases v; simp)+

lemma grating_sf_zero:
  assumes "nonlinear self = relu"
    and "LGNnode_get_response_grating env self ori c phase 0 = Inr r"
  shows "r = map_pyval (\<lambda>p. NaN) phase"
proof -
  have "np_sin env (np_add env (dist_phi env self ori 0) p) = NaN" for p
    by (rule np_sin_not_finite) (rule dist_phi_sf_zero)
  then show ?thesis using assms
    by (simp add: grating_unfold np_mul_nan relu_elementwise relu_scalar_def pyval.map_comp
        o_def split: if_splits del: np_mul.simps np_add.simps np_div.simps np_sin.simps)
qed

lemma relu_not_negative_parts:
  assumes "nonlinear self = relu"
    and "rounds_sign env" "subunits pop \<noteq> []" "list_all (\<lambda>u. nonlinear u = relu) (subunits pop)"
  shows "(\<forall>r. LGNnode_get_response_grating env self ori c phase sf = Inr r \<longrightarrow> none_neg r)
       \<and> (\<exists>r. LGNnode_get_response_plaid env self ori1 ori2 c1 c2 phase dphase sf = Inr r
              \<and> none_neg r)
       \<and> (\<forall>r. LGNnode_get_response_grating env self ori c phase 0 = Inr r
              \<longrightarrow> r = map_pyval (\<lambda>p. NaN) phase)
       \<and> (\<forall>curve. V1node_get_response_grating env pop len phase0 ori c sf = Inr curve
              \<longrightarrow> length curve = nat len \<and> list_all not_neg curve)
       \<and> (1 \<le> len \<longrightarrow>
            (\<exists>curve. V1node_get_response_plaid env pop len phase0 ori1 ori2 c1 c2 dphase sf
                        = Inr curve
                    \<and> length curve = nat len \<and> list_all not_neg curve))"
proof (intro conjI allI impI)
  fix r
  assume "LGNnode_get_response_grating env self ori c phase sf = Inr r"
  then show "none_neg r"
    using assms(1) by (auto simp add: grating_unfold relu_none_neg split: if_splits)
next
  obtain g where "\<forall>phase. LGNnode_get_response_plaid env self ori1 ori2 c1 c2 phase dphase sf
       = Inr (nonlinear self (map_pyval g phase))"
    using plaid_unfold by blast
  then show "\<exists>r. LGNnode_get_response_plaid env self ori1 ori2 c1 c2 phase dphase sf = Inr r
              \<and> none_neg r"
    using assms(1) by (simp add: relu_none_neg)
next
  fix r
  assume "LGNnode_get_response_grating env self ori c phase 0 = Inr r"
  with assms(1) show "r = map_pyval (\<lambda>p. NaN) phase" by (rule grating_sf_zero)
next
  fix curve
  assume ret: "V1node_get_response_grating env pop len phase0 ori c sf = Inr curve"
  have "length curve = nat len \<and> list_all not_neg curve"
  proof (rule cycle_response_not_neg
      [OF assms(2,3) _ ret [unfolded V1node_get_response_grating_def]])
    fix item ps r
    assume it: "item \<in> set (subunits pop)"
      and r: "LGNnode_get_response_grating env item ori c (Array ps) sf = Inr r"
    have nl: "nonlinear item = relu" using it assms(4) by (simp add: list_all_iff)
    obtain g where "r = relu (map_pyval g (Array ps))"
      using r nl by (auto simp add: grating_unfold split: if_splits)
    then show "\<exists>ys. r = Array ys \<and> length ys = length ps \<and> list_all not_neg ys"
      using relu_array [of g ps] by simp
  qed
  then show "length curve = nat len" and "list_all not_neg curve" by simp_all
next
  assume len: "1 \<le> len"
  have item: "\<exists>ys. LGNnode_get_response_plaid env item ori1 ori2 c1 c2 (Array ps) dphase sf
                 = Inr (Array ys) \<and> length ys = length ps \<and> list_all not_neg ys"
    if "item \<in> set (subunits pop)" for item ps
  proof -
    have nl: "nonlinear item = relu" using that assms(4) by (simp add: list_all_iff)
    obtain g where "LGNnode_get_response_plaid env item ori1 ori2 c1 c2 (Array ps) dphase sf
       = Inr (nonlinear item (map_pyval g (Array ps)))"
      using plaid_unfold [of env item ori1 ori2 c1 c2 dphase sf] by blast
    then show ?thesis using nl relu_array [of g ps] by simp
  qed
  have "\<exists>curve. cycle_response env pop len phase0
      (\<lambda>item ph. LGNnode_get_response_plaid env item ori1 ori2 c1 c2 ph dphase sf) = Inr curve"
  proof (rule cycle_response_returns [OF len])
    fix it ps
    assume "it \<in> set (subunits pop)"
    then show "\<exists>ys. LGNnode_get_response_plaid env it ori1 ori2 c1 c2 (Array ps) dphase sf
                 = Inr (Array ys) \<and> length ys = length ps"
      using item [of it ps] by blast
  qed
  then obtain curve where ret: "cycle_response env pop len phase0
      (\<lambda>item ph. LGNnode_get_response_plaid env item ori1 ori2 c1 c2 ph dphase sf) = Inr curve"
    by blast
  have "length curve = nat len \<and> list_all not_neg curve"
  proof (rule cycle_response_not_neg [OF assms(2,3) _ ret])
    fix it ps r
    assume "it \<in> set (subunits pop)"
      and "LGNnode_get_response_plaid env it ori1 ori2 c1 c2 (Array ps) dphase sf = Inr r"
    then show "\<exists>ys. r = Array ys \<and> length ys = length ps \<and> list_all not_neg ys"
      using item [of it ps] by auto
  qed
  then show "\<exists>curve. V1node_get_response_plaid env pop len phase0 ori1 ori2 c1 c2 dphase sf
                        = Inr curve
                    \<and> length curve = nat len \<and> list_all not_neg curve"
    using ret by (simp add: V1node_get_response_plaid_def)
qed

text \<open>
  C10, as amended: in any arithmetic, no value that a subunit with the relu nonlinearity
  returns is negative: every entry of a grating response (returned unless
  \<open>contrast + C50\<close> is 0) and of a plaid response (always returned) is at least 0 or
  \<open>nan\<close>, and at \<open>sf = 0\<close> every entry of the grating response is \<open>nan\<close>. Consequently, when
  rounding keeps the sign, for a population over a non-empty list of such subunits every
  entry of a returned grating curve and of the plaid curve (returned for every
  \<open>length \<ge> 1\<close>) is at least 0 or \<open>nan\<close>, and the curve has \<open>length\<close> entries.
\<close>

theorem relu_responses_not_negative:
  assumes "nonlinear self = relu"
    and "rounds_sign env" "subunits pop \<noteq> []" "list_all (\<lambda>u. nonlinear u = relu) (subunits pop)"
  shows "(\<forall>r. LGNnode_get_response_grating env self ori c phase sf = Inr r \<longrightarrow> none_neg r)
       \<and> (np_add env (Fin c) (Fin (C50 self)) \<noteq> Fin 0 \<longrightarrow>
            (\<exists>r. LGNnode_get_response_grating env self ori c phase sf = Inr r))
       \<and> (\<exists>r. LGNnode_get_response_plaid env self ori1 ori2 c1 c2 phase dphase sf = Inr r
              \<and> none_neg r)
       \<and> (\<forall>r. LGNnode_get_response_grating env self ori c phase 0 = Inr r
              \<longrightarrow> r = map_pyval (\<lambda>p. NaN) phase)
       \<and> (\<forall>curve. V1node_get_response_grating env pop len phase0 ori c sf = Inr curve
              \<longrightarrow> length curve = nat len \<and> list_all not_neg curve)
       \<and> (1 \<le> len \<and> list_all (\<lambda>u. np_add env (Fin c) (Fin (C50 u)) \<noteq> Fin 0) (subunits pop)
            \<longrightarrow> (\<exists>curve. V1node_get_response_grating env pop len phase0 ori c sf = Inr curve))
       \<and> (1 \<le> len \<longrightarrow>
            (\<exists>curve. V1node_get_response_plaid env pop len phase0 ori1 ori2 c1 c2 dphase sf
                        = Inr curve
                    \<and> length curve = nat len \<and> list_all not_neg curve))"
proof -
  have a: "(\<forall>r. LGNnode_get_response_grating env self ori c phase sf = Inr r \<longrightarrow> none_neg r)
       \<and> (\<exists>r. LGNnode_get_response_plaid env self ori1 ori2 c1 c2 phase dphase sf = Inr r
              \<and> none_neg r)
       \<and> (\<forall>r. LGNnode_get_response_grating env self ori c phase 0 = Inr r
              \<longrightarrow> r = map_pyval (\<lambda>p. NaN) phase)
       \<and> (\<forall>curve. V1node_get_response_grating env pop len phase0 ori c sf = Inr curve
              \<longrightarrow> length curve = nat len \<and> list_all not_neg curve)
       \<and> (1 \<le> len \<longrightarrow>
            (\<exists>curve. V1node_get_response_plaid env pop len phase0 ori1 ori2 c1 c2 dphase sf
                        = Inr curve
                    \<and> length curve = nat len \<and> list_all not_neg curve))"
    by (rule relu_not_negative_parts [OF assms])
  have b: "np_add env (Fin c) (Fin (C50 self)) \<noteq> Fin 0 \<longrightarrow>
            (\<exists>r. LGNnode_get_response_grating env self ori c phase sf = Inr r)"
    using grating_returns by blast
  have c: "1 \<le> len \<and> list_all (\<lambda>u. np_add env (Fin c) (Fin (C50 u)) \<noteq> Fin 0) (subunits pop)
            \<longrightarrow> (\<exists>curve. V1node_get_response_grating env pop len phase0 ori c sf = Inr curve)"
  proof
    assume h: "1 \<le> len \<and> list_all (\<lambda>u. np_add env (Fin c) (Fin (C50 u)) \<noteq> Fin 0) (subunits pop)"
    show "\<exists>curve. V1node_get_response_grating env pop len phase0 ori c sf = Inr curve"
      unfolding V1node_get_response_grating_def
    proof (rule cycle_response_returns)
      show "1 \<le> len" using h by simp
      fix item ps
      assume it: "item \<in> set (subunits pop)"
      then have nl: "nonlinear item = relu" and nz: "np_add env (Fin c) (Fin (C50 item)) \<noteq> Fin 0"
        using assms(4) h by (simp_all add: list_all_iff)
      have "LGNnode_get_response_grating env item ori c (Array ps) sf
          = Inr (relu (map_pyval
        (\<lambda>p. np_mul env
           (np_add env
              (np_div env (np_mul env (Fin (Rmax item)) (Fin c))
                 (np_add env (Fin c) (Fin (C50 item))))
              (Fin (Rbase item)))
           (np_mul env (np_sin env (np_add env (dist_phi env item ori sf) p)) (Fin 2)))
        (Array ps)))"
        using nl nz by (simp only: grating_unfold if_False)
      then show "\<exists>ys. LGNnode_get_response_grating env item ori c (Array ps) sf = Inr (Array ys)
                    \<and> length ys = length ps"
        by (simp add: relu_elementwise del: np_add.simps np_mul.simps np_div.simps np_sin.simps)
    qed
  qed
  show ?thesis using a b c by blast
qed

theorem relu_responses_not_negative_witness:
  "nonlinear (LGNnode_init (3, 4) relu 3 (1/2) 0) = relu
   \<and> rounds_sign binary64_arith
   \<and> subunits (V1node_init [LGNnode_default, LGNnode_init (3, 4) relu 3 (1/2) 0] relu) \<noteq> []
   \<and> list_all (\<lambda>u. nonlinear u = relu)
        (subunits (V1node_init [LGNnode_default, LGNnode_init (3, 4) relu 3 (1/2) 0] relu))
   \<and> (\<exists>r. LGNnode_get_response_grating binary64_arith (LGNnode_init (3, 4) relu 3 (1/2) 0)
             1 (1/2) (Array [Fin 0, Fin 1]) 50 = Inr r \<and> none_neg r)
   \<and> (\<exists>r. LGNnode_get_response_plaid binary64_arith (LGNnode_init (3, 4) relu 3 (1/2) 0)
             1 2 (1/2) (1/4) (Array [Fin 0, Fin 1]) (1/2) 50 = Inr r \<and> none_neg r)
   \<and> (\<exists>r. LGNnode_get_response_grating binary64_arith (LGNnode_init (3, 4) relu 3 (1/2) 0)
             1 (1/2) (Array [Fin 0, Fin 1]) 0 = Inr r \<and> r = Array [NaN, NaN])
   \<and> (\<exists>curve. V1node_get_response_grating binary64_arith
                 (V1node_init [LGNnode_default, LGNnode_init (3, 4) relu 3 (1/2) 0] relu)
                 720 0 1 (1/2) 50 = Inr curve
             \<and> length curve = 720 \<and> list_all not_neg curve)
   \<and> (\<exists>curve. V1node_get_response_plaid binary64_arith
                 (V1node_init [LGNnode_default, LGNnode_init (3, 4) relu 3 (1/2) 0] relu)
                 720 0 1 2 (1/2) (1/4) (1/2) 50 = Inr curve
             \<and> length curve = 720 \<and> list_all not_neg curve)"
proof -
  let ?m = "LGNnode_init (3, 4) relu 3 (1/2) 0"
  let ?pop = "V1node_init [LGNnode_default, LGNnode_init (3, 4) relu 3 (1/2) 0] relu"
  have h1: "nonlinear ?m = relu" by (simp add: LGNnode_init_def)
  have h2: "rounds_sign binary64_arith" by (rule binary64_rounds)
  have h3: "subunits ?pop \<noteq> []" by (simp add: V1node_init_def)
  have h4: "list_all (\<lambda>u. nonlinear u = relu) (subunits ?pop)"
    by (simp add: V1node_init_def LGNnode_init_def default_fields)
  have den: "np_add binary64_arith (Fin (1/2)) (Fin (1/2)) = Fin 1"
    by (simp add: binary64_fields rnd64_1)
  have g1: "np_add binary64_arith (Fin (1/2)) (Fin (C50 ?m)) \<noteq> Fin 0"
    by (simp add: LGNnode_init_def den del: np_add.simps)
  have g2: "(1::int) \<le> 720
      \<and> list_all (\<lambda>u. np_add binary64_arith (Fin (1/2)) (Fin (C50 u)) \<noteq> Fin 0) (subunits ?pop)"
    by (simp add: V1node_init_def LGNnode_init_def default_fields den del: np_add.simps)
  note t = relu_responses_not_negative [OF h1 h2 h3 h4, of 1 "1/2" "Array [Fin 0, Fin 1]" 50
      1 2 "1/2" "1/4" "1/2" 720 0]
  note t0 = relu_responses_not_negative [OF h1 h2 h3 h4, of 1 "1/2" "Array [Fin 0, Fin 1]" 0
      1 2 "1/2" "1/4" "1/2" 720 0]
  have a: "\<exists>r. LGNnode_get_response_grating binary64_arith ?m 1 (1/2) (Array [Fin 0, Fin 1]) 50
                 = Inr r \<and> none_neg r"
    using t g1 by blast
  have b: "\<exists>r. LGNnode_get_response_plaid binary64_arith ?m 1 2 (1/2) (1/4)
                 (Array [Fin 0, Fin 1]) (1/2) 50 = Inr r \<and> none_neg r"
    using t by blast
  have z: "\<exists>r. LGNnode_get_response_grating binary64_arith ?m 1 (1/2) (Array [Fin 0, Fin 1]) 0
                 = Inr r \<and> r = Array [NaN, NaN]"
    using t0 g1 by fastforce
  have c: "\<exists>curve. V1node_get_response_grating binary64_arith ?pop 720 0 1 (1/2) 50 = Inr curve
                  \<and> length curve = 720 \<and> list_all not_neg curve"
    using t g2 by fastforce
  have d: "\<exists>curve. V1node_get_response_plaid binary64_arith ?pop 720 0 1 2 (1/2) (1/4) (1/2) 50
                     = Inr curve
                  \<and> length curve = 720 \<and> list_all not_neg curve"
    using t by fastforce
  show ?thesis using h1 h2 h3 h4 a b z c d by blast
qed

text \<open>
  C10 as stated fails at the spatial frequency 0: the division by \<open>sf\<close> is a NumPy
  division, which gives \<open>nan\<close> or an infinity and no error, the sine of it is \<open>nan\<close>, and
  relu returns \<open>nan\<close> unchanged (\<open>nan < 0\<close> is false). The default subunit returns \<open>nan\<close>,
  which is not at least 0.
\<close>

theorem relu_response_nan_example:
  "nonlinear LGNnode_default = relu
   \<and> LGNnode_get_response_grating binary64_arith LGNnode_default 0 (1/2) (Scalar (Fin 0)) 0
       = Inr (Scalar NaN)
   \<and> \<not> all_ge0 (Scalar NaN)"
proof -
  have nl: "nonlinear LGNnode_default = relu" by (simp add: default_fields)
  have den: "np_add binary64_arith (Fin (1/2)) (Fin (1/2)) = Fin 1"
    by (simp add: binary64_fields rnd64_1)
  obtain r where r: "LGNnode_get_response_grating binary64_arith LGNnode_default 0 (1/2)
      (Scalar (Fin 0)) 0 = Inr r"
    by (simp add: grating_unfold default_fields den
        del: np_add.simps np_mul.simps np_div.simps np_sin.simps)
  have "r = map_pyval (\<lambda>p. NaN) (Scalar (Fin 0))"
    using nl r by (rule grating_sf_zero)
  then show ?thesis using nl r by simp
qed

end
